theory Spec2Isabelle
  imports Main
begin

section \<open>Strong (Dirichlet) boundary conditions: \<^verbatim>\<open>firedrake/bcs.py\<close>\<close>

subsection \<open>Python values, function spaces and fields\<close>

text \<open>
  Exceptions are values. \<open>RuntimeError\<close>, \<open>ValueError\<close>, \<open>TypeError\<close> and
  \<open>NotImplementedError\<close> are the exceptions that the \<^verbatim>\<open>raise\<close> statements of the
  sources construct; \<open>Raised c\<close> is an exception of class \<open>c\<close> that comes out of the
  interpreter or of a library (numpy, PyOP2, json, the other modules of the package).
  An operation that mutates an object returns the exception it raised, if any, together
  with the object as the exception left it.
\<close>

datatype error = RuntimeError | ValueError | TypeError | NotImplementedError | Raised string

text \<open>
  \<^verbatim>\<open>sub_domain\<close> is a Python value that the code compares with the strings
  \<^verbatim>\<open>"bottom"\<close> and \<^verbatim>\<open>"top"\<close>: a string marker or an integer id.
\<close>

datatype sub_domain = Marker string | Tag int

text \<open>
  Modelled from the spec: the function space classes and the mesh of the package, which
  are not among the sources at hand, by what \<^verbatim>\<open>DirichletBC\<close> reads of a function space
  \<^verbatim>\<open>fs\<close>. For \<^verbatim>\<open>nodes\<close> these are \<^verbatim>\<open>fs.extruded\<close>, \<^verbatim>\<open>fs._mesh.layers\<close>, the size
  of \<^verbatim>\<open>fs.node_set\<close>,
  \<^verbatim>\<open>fs.bottom_nodes()\<close>, \<^verbatim>\<open>fs.top_nodes()\<close>, the two-dimensional array
  \<^verbatim>\<open>fs.exterior_facet_boundary_node_map.values_with_halo\<close> (one row of nodes per
  exterior facet; \<open>arity\<close> is the number of its columns, which an array has also when it
  has no row, and every row has that many entries) and the map's \<^verbatim>\<open>offset\<close>, a
  one-dimensional array,
  \<^verbatim>\<open>fs._mesh.exterior_facets.subset(sub_domain).indices\<close> and the same of
  \<^verbatim>\<open>fs._mesh._old_mesh\<close>. Node numbers and offsets are natural numbers.
\<close>

record mesh_data =
  extruded :: bool
  layers :: nat
  node_count :: nat
  bottom_nodes :: "nat list"
  top_nodes :: "nat list"
  arity :: nat
  values_with_halo :: "nat list list"
  offset :: "nat list"
  exterior_facets :: "sub_domain \<Rightarrow> nat list"
  old_exterior_facets :: "sub_domain \<Rightarrow> nat list"

text \<open>
  Modelled from the spec: a function space, as \<^verbatim>\<open>DirichletBC\<close> compares and reads it.
  Two function spaces are equal when they are the same space (\<open>ident\<close> names it). Only
  an indexed function space has the attribute
  \<^verbatim>\<open>_parent\<close> (the mixed space it is a component of); \<^verbatim>\<open>index\<close> is
  \<^verbatim>\<open>None\<close> but for an indexed space.
\<close>

datatype fspace =
  FunctionSpace (ident: nat) (parent: "fspace option") (index: "nat option") (mesh: mesh_data)

text \<open>
  Modelled from the spec: the class \<^verbatim>\<open>Function\<close> of \<^verbatim>\<open>firedrake/function.py\<close>, which is
  not among the sources at hand. A field has its function space and its data, the value
  at every node of the space, one
  such array per component (\<^verbatim>\<open>r.dat[i]\<close> is component \<open>i\<close>; a function on a space
  that is not mixed has the one component 0). The type \<open>'a\<close> of a node's value is
  left open: the code needs no more of it than a zero and a subtraction.
\<close>

record 'a func =
  space :: fspace
  dat :: "(nat \<Rightarrow> 'a) list"

text \<open>
  Modelled from the spec: the class \<^verbatim>\<open>Expression\<close> of \<^verbatim>\<open>firedrake/expression.py\<close>, which
  is not among the sources at hand; an expression is known by its code strings.
\<close>

datatype expression = Expr "string list"

text \<open>
  The values a caller can pass as \<^verbatim>\<open>g\<close>: a bare literal constant, an iterable, an
  \<^verbatim>\<open>Expression\<close>, a \<^verbatim>\<open>Function\<close>, or any other Python object.
\<close>

datatype 'a pyval =
  Literal 'a
  | Iterable "'a pyval list"
  | Expression expression
  | Function "'a func"
  | Object nat

record 'a bc =
  function_space :: fspace
  function_arg :: "'a pyval"
  original_arg :: "'a pyval"
  sub_domain :: sub_domain
  currently_zeroed :: bool

text \<open>
  The collaborators of \<^verbatim>\<open>bcs.py\<close> whose code is not part of the sources at hand are
  parameters: \<^verbatim>\<open>expression.to_expression\<close> (\<open>None\<close> when it raises),
  \<^verbatim>\<open>Function(V).interpolate(g)\<close> and \<^verbatim>\<open>projection.project(g, V)\<close> (the data of
  the field on \<open>V\<close> they return, or the class of the exception they raise), and
  \<^verbatim>\<open>Matrix.add_bc\<close>, on a matrix seen as the boundary conditions attached to it.
\<close>

record 'a env =
  to_expression :: "'a pyval \<Rightarrow> expression option"
  interpolate :: "fspace \<Rightarrow> expression \<Rightarrow> string + (nat \<Rightarrow> 'a) list"
  project :: "expression \<Rightarrow> fspace \<Rightarrow> string + (nat \<Rightarrow> 'a) list"
  add_bc :: "'a bc list \<Rightarrow> 'a bc \<Rightarrow> 'a bc list"

text \<open>
  \<^verbatim>\<open>ufl.as_ufl\<close> returns a UFL expression as it is (a \<^verbatim>\<open>Function\<close> and an
  \<^verbatim>\<open>Expression\<close> are UFL coefficients), turns a Python scalar into a UFL constant
  and raises \<^verbatim>\<open>UFLException\<close> on anything else. \<open>True\<close> is: it does not raise.
\<close>

fun as_ufl :: "'a pyval \<Rightarrow> bool" where
  "as_ufl (Literal c) = True"
| "as_ufl (Function f) = True"
| "as_ufl (Expression e) = True"
| "as_ufl (Iterable xs) = False"
| "as_ufl (Object n) = False"

fun is_Expression :: "'a pyval \<Rightarrow> bool" where
  "is_Expression (Expression e) = True"
| "is_Expression v = False"

subsection \<open>The \<^verbatim>\<open>function_arg\<close> setter, the constructor and the value's lifecycle\<close>

text \<open>
  Lines 49 to 60 of the setter: the guard on a \<^verbatim>\<open>Function\<close> of another space, then
  the conversion of what is neither an \<^verbatim>\<open>Expression\<close> nor a UFL value.
\<close>

definition to_ufl_or_expression :: "'a env \<Rightarrow> fspace \<Rightarrow> 'a pyval \<Rightarrow> error + 'a pyval" where
  "to_ufl_or_expression E V g =
     (if (case g of Function f \<Rightarrow> space f \<noteq> V | _ \<Rightarrow> False) then Inl RuntimeError
      else if \<not> is_Expression g then
        (if as_ufl g then Inr g
         else (case to_expression E g of
                 None \<Rightarrow> Inl ValueError
               | Some e \<Rightarrow> Inr (Expression e)))
      else Inr g)"

text \<open>
  Lines 61 to 66: an \<^verbatim>\<open>Expression\<close> is interpolated into a new \<^verbatim>\<open>Function\<close> on
  the space, or projected when interpolation raises \<^verbatim>\<open>NotImplementedError\<close>; any
  other exception propagates.
\<close>

definition to_field :: "'a env \<Rightarrow> fspace \<Rightarrow> 'a pyval \<Rightarrow> error + 'a pyval" where
  "to_field E V g =
     (case g of
        Expression e \<Rightarrow>
          (case interpolate E V e of
             Inr d \<Rightarrow> Inr (Function \<lparr>space = V, dat = d\<rparr>)
           | Inl c \<Rightarrow>
               if c = ''NotImplementedError'' then
                 (case project E e V of
                    Inr d \<Rightarrow> Inr (Function \<lparr>space = V, dat = d\<rparr>)
                  | Inl c' \<Rightarrow> Inl (Raised c'))
               else Inl (Raised c))
      | _ \<Rightarrow> Inr g)"

text \<open>The value the setter stores for \<open>g\<close> on the space \<open>V\<close>, or the exception it raises.\<close>

definition new_function_arg :: "'a env \<Rightarrow> fspace \<Rightarrow> 'a pyval \<Rightarrow> error + 'a pyval" where
  "new_function_arg E V g =
     (case to_ufl_or_expression E V g of
        Inl err \<Rightarrow> Inl err
      | Inr g' \<Rightarrow> to_field E V g')"

text \<open>
  The setter: every raise stands before the two assignments of lines 67 and 68, so an
  exception leaves the object as it was.
\<close>

definition function_arg_setter :: "'a env \<Rightarrow> 'a pyval \<Rightarrow> 'a bc \<Rightarrow> error option \<times> 'a bc" where
  "function_arg_setter E g self =
     (case new_function_arg E (function_space self) g of
        Inl err \<Rightarrow> (Some err, self)
      | Inr v \<Rightarrow> (None, self\<lparr>function_arg := v, currently_zeroed := False\<rparr>))"

text \<open>
  \<^verbatim>\<open>__init__\<close>: the object exists only when the setter did not raise; then
  \<^verbatim>\<open>_original_arg\<close> is the value the setter stored.
\<close>

definition DirichletBC :: "'a env \<Rightarrow> fspace \<Rightarrow> 'a pyval \<Rightarrow> sub_domain \<Rightarrow> error + 'a bc" where
  "DirichletBC E V g sd =
     (case new_function_arg E V g of
        Inl err \<Rightarrow> Inl err
      | Inr v \<Rightarrow> Inr \<lparr>function_space = V, function_arg = v, original_arg = v,
                       sub_domain = sd, currently_zeroed = False\<rparr>)"

definition homogenize :: "'a::zero env \<Rightarrow> 'a bc \<Rightarrow> error option \<times> 'a bc" where
  "homogenize E self =
     (case function_arg_setter E (Literal 0) self of
        (Some err, self') \<Rightarrow> (Some err, self')
      | (None, self') \<Rightarrow> (None, self'\<lparr>currently_zeroed := True\<rparr>))"

definition restore :: "'a bc \<Rightarrow> 'a bc" where
  "restore self = self\<lparr>function_arg := original_arg self, currently_zeroed := False\<rparr>"

definition set_value :: "'a env \<Rightarrow> 'a pyval \<Rightarrow> 'a bc \<Rightarrow> error option \<times> 'a bc" where
  "set_value E val self =
     (case function_arg_setter E val self of
        (Some err, self') \<Rightarrow> (Some err, self')
      | (None, self') \<Rightarrow> (None, self'\<lparr>original_arg := function_arg self'\<rparr>))"

subsection \<open>The nodes of a boundary condition\<close>

text \<open>
  The numpy operations of \<^verbatim>\<open>nodes\<close>. \<^verbatim>\<open>a.take(indices, axis=0)\<close> selects rows and
  raises \<^verbatim>\<open>IndexError\<close> on an index out of bounds; the rows selected form an array of
  the same number of columns. \<^verbatim>\<open>base_maps + i * facet_offset\<close> broadcasts the shapes
  \<^verbatim>\<open>(n, width)\<close> and \<^verbatim>\<open>(m,)\<close>: it raises \<^verbatim>\<open>ValueError\<close> unless \<open>width = m\<close>, \<open>width = 1\<close>
  or \<open>m = 1\<close>, whatever the number of rows; to every entry of every row it adds \<open>i\<close> times
  the offset of its column, a single column being repeated for every offset and a single
  offset for every column.
  \<^verbatim>\<open>np.concatenate\<close> raises \<^verbatim>\<open>ValueError\<close> on an empty list of arrays.
  \<^verbatim>\<open>np.unique\<close> flattens and returns the sorted entries without duplicates.
\<close>

definition take_rows :: "'b list \<Rightarrow> nat list \<Rightarrow> error + 'b list" where
  "take_rows a indices =
     (if list_all (\<lambda>i. i < length a) indices then Inr (map (\<lambda>i. a ! i) indices)
      else Inl (Raised ''IndexError''))"

definition broadcast_add :: "nat list \<Rightarrow> nat \<Rightarrow> nat list \<Rightarrow> nat list" where
  "broadcast_add row i facet_offset =
     (if length row = length facet_offset
      then map (\<lambda>(v, off). v + i * off) (zip row facet_offset)
      else if length row = 1 then map (\<lambda>off. row ! 0 + i * off) facet_offset
      else map (\<lambda>v. v + i * facet_offset ! 0) row)"

definition add_offset :: "nat \<Rightarrow> nat list list \<Rightarrow> nat \<Rightarrow> nat list \<Rightarrow> error + nat list list" where
  "add_offset width base_maps i facet_offset =
     (if width = length facet_offset \<or> width = 1 \<or> length facet_offset = 1
      then Inr (map (\<lambda>row. broadcast_add row i facet_offset) base_maps)
      else Inl (Raised ''ValueError''))"

fun collect :: "(error + 'b) list \<Rightarrow> error + 'b list" where
  "collect [] = Inr []"
| "collect (Inl err # xs) = Inl err"
| "collect (Inr x # xs) = (case collect xs of Inl err \<Rightarrow> Inl err | Inr ys \<Rightarrow> Inr (x # ys))"

definition concatenate :: "'b list list \<Rightarrow> error + 'b list" where
  "concatenate arrays = (if arrays = [] then Inl (Raised ''ValueError'') else Inr (concat arrays))"

definition unique :: "nat list list \<Rightarrow> nat list" where
  "unique a = sort (remdups (concat a))"

text \<open>
  The property \<^verbatim>\<open>nodes\<close>. \<^verbatim>\<open>utils.cached_property\<close> keeps the first result; the
  model computes it from the object, which is the same as long as \<^verbatim>\<open>sub_domain\<close> is
  not reassigned after the first access.
\<close>

definition nodes :: "'a bc \<Rightarrow> error + nat list" where
  "nodes self =
     (let fs = mesh (function_space self) in
      if sub_domain self = Marker ''bottom'' then Inr (bottom_nodes fs)
      else if sub_domain self = Marker ''top'' then Inr (top_nodes fs)
      else if extruded fs then
        (case take_rows (values_with_halo fs) (old_exterior_facets fs (sub_domain self)) of
           Inl err \<Rightarrow> Inl err
         | Inr base_maps \<Rightarrow>
             (case collect (map (\<lambda>i. add_offset (arity fs) base_maps i (offset fs))
                             [0 ..< layers fs - 1]) of
                Inl err \<Rightarrow> Inl err
              | Inr arrays \<Rightarrow>
                  (case concatenate arrays of
                     Inl err \<Rightarrow> Inl err
                   | Inr a \<Rightarrow> Inr (unique a))))
      else
        (case take_rows (values_with_halo fs) (exterior_facets fs (sub_domain self)) of
           Inl err \<Rightarrow> Inl err
         | Inr a \<Rightarrow> Inr (unique a)))"

text \<open>
  \<^verbatim>\<open>node_set\<close> is \<^verbatim>\<open>op2.Subset(fs.node_set, nodes)\<close>: PyOP2 sorts the indices, drops
  duplicates and raises when one of them is not below the size of the node set.
\<close>

definition node_set :: "'a bc \<Rightarrow> error + nat list" where
  "node_set self =
     (case nodes self of
        Inl err \<Rightarrow> Inl err
      | Inr ns \<Rightarrow>
          (if list_all (\<lambda>n. n < node_count (mesh (function_space self))) ns
           then Inr (unique [ns]) else Inl (Raised ''SubsetIndexOutOfBounds'')))"

subsection \<open>Applying a boundary condition\<close>

text \<open>\<^verbatim>\<open>r\<close> is a \<^verbatim>\<open>Function\<close> or a \<^verbatim>\<open>Matrix\<close> (the boundary conditions attached to it).\<close>

datatype 'a target = Fn "'a func" | Mat "'a bc list"

text \<open>
  \<^verbatim>\<open>Function(fs, r.dat[fs.index])\<close> when \<^verbatim>\<open>fs.index\<close> is not \<^verbatim>\<open>None\<close>: a function
  on the one component \<^verbatim>\<open>fs.index\<close> of \<open>r\<close>'s data (\<^verbatim>\<open>r.dat[i]\<close> raises when there is
  no component \<open>i\<close>). The new function shares that component with \<open>r\<close>, so what is
  assigned to it is written into \<open>r\<close>: \<open>write_back\<close>.
\<close>

definition component :: "nat option \<Rightarrow> (nat \<Rightarrow> 'a) list \<Rightarrow> error + (nat \<Rightarrow> 'a) list" where
  "component idx d =
     (case idx of
        None \<Rightarrow> Inr d
      | Some i \<Rightarrow> if i < length d then Inr [d ! i] else Inl (Raised ''IndexError''))"

definition write_back :: "nat option \<Rightarrow> (nat \<Rightarrow> 'a) list \<Rightarrow> (nat \<Rightarrow> 'a) list \<Rightarrow> (nat \<Rightarrow> 'a) list" where
  "write_back idx d d' =
     (case idx of
        None \<Rightarrow> d'
      | Some i \<Rightarrow> d[i := d' ! 0])"

text \<open>
  The data of component \<open>j\<close> of a value that stands in an assignment: a literal constant
  has the same value at every node, a \<^verbatim>\<open>Function\<close> has its data; nothing else can be
  assigned. \<open>difference\<close> is \<^verbatim>\<open>u - self.function_arg\<close>.
\<close>

fun operand :: "'a pyval \<Rightarrow> nat \<Rightarrow> (nat \<Rightarrow> 'a) option" where
  "operand (Literal c) j = Some (\<lambda>n. c)"
| "operand (Function f) j = (if j < length (dat f) then Some (dat f ! j) else None)"
| "operand (Iterable xs) j = None"
| "operand (Expression e) j = None"
| "operand (Object k) j = None"

definition difference :: "(nat \<Rightarrow> 'a::minus) list \<Rightarrow> 'a pyval \<Rightarrow> nat \<Rightarrow> (nat \<Rightarrow> 'a) option" where
  "difference ud g j =
     (if j < length ud then
        (case operand g j of
           None \<Rightarrow> None
         | Some b \<Rightarrow> Some (\<lambda>n. (ud ! j) n - b n))
      else None)"

text \<open>
  Modelled from the spec: \<^verbatim>\<open>Function.assign(expr, subset=...)\<close> of
  \<^verbatim>\<open>firedrake/function.py\<close>, which is not among the sources at hand. By the docstring
  of \<^verbatim>\<open>apply\<close>, the nodes of the subset are set to the values of the expression; the
  other nodes are not assigned. An expression that has no value on some component of
  the function raises (an exception of a class named \<^verbatim>\<open>AssignError\<close> here).
\<close>

definition assign ::
  "(nat \<Rightarrow> (nat \<Rightarrow> 'a) option) \<Rightarrow> nat list \<Rightarrow> (nat \<Rightarrow> 'a) list \<Rightarrow> error + (nat \<Rightarrow> 'a) list" where
  "assign expr ns d =
     (if list_all (\<lambda>j. expr j \<noteq> None) [0 ..< length d]
      then Inr (map (\<lambda>j. \<lambda>n. if n \<in> set ns then the (expr j) n else (d ! j) n)
                  [0 ..< length d])
      else Inl (Raised ''AssignError''))"

text \<open>
  \<^verbatim>\<open>apply\<close>. The optional state \<open>u\<close> is \<open>None\<close> or a \<^verbatim>\<open>Function\<close>, which is true in
  \<^verbatim>\<open>if u:\<close>. Every raise stands before the assignment, so an exception leaves \<open>r\<close> as
  it was.
\<close>

definition apply_bc ::
  "'a::minus env \<Rightarrow> 'a bc \<Rightarrow> 'a target \<Rightarrow> 'a func option \<Rightarrow> error option \<times> 'a target" where
  "apply_bc E self r u =
     (case r of
        Mat m \<Rightarrow> (None, Mat (add_bc E m self))
      | Fn rf \<Rightarrow>
          (let fs = function_space self in
           if \<not> (fs = space rf \<or> (parent fs \<noteq> None \<and> parent fs = Some (space rf)))
           then (Some RuntimeError, r)
           else
             (case component (index fs) (dat rf) of
                Inl err \<Rightarrow> (Some err, r)
              | Inr rd \<Rightarrow>
                  (case u of
                     Some uf \<Rightarrow>
                       (case component (index fs) (dat uf) of
                          Inl err \<Rightarrow> (Some err, r)
                        | Inr ud \<Rightarrow>
                            (case node_set self of
                               Inl err \<Rightarrow> (Some err, r)
                             | Inr ns \<Rightarrow>
                                 (case assign (difference ud (function_arg self)) ns rd of
                                    Inl err \<Rightarrow> (Some err, r)
                                  | Inr rd' \<Rightarrow>
                                      (None, Fn (rf\<lparr>dat := write_back (index fs) (dat rf) rd'\<rparr>)))))
                   | None \<Rightarrow>
                       (case node_set self of
                          Inl err \<Rightarrow> (Some err, r)
                        | Inr ns \<Rightarrow>
                            (case assign (operand (function_arg self)) ns rd of
                               Inl err \<Rightarrow> (Some err, r)
                             | Inr rd' \<Rightarrow>
                                 (None, Fn (rf\<lparr>dat := write_back (index fs) (dat rf) rd'\<rparr>))))))))"

text \<open>
  \<^verbatim>\<open>zero\<close>: when \<^verbatim>\<open>apply\<close> raises, \<^verbatim>\<open>restore\<close> is not reached and the boundary
  condition stays homogenized.
\<close>

definition zero ::
  "'a::{zero,minus} env \<Rightarrow> 'a bc \<Rightarrow> 'a target \<Rightarrow> error option \<times> 'a bc \<times> 'a target" where
  "zero E self r =
     (case r of
        Mat m \<Rightarrow> (Some NotImplementedError, self, r)
      | Fn rf \<Rightarrow>
          (let zeroed_on_entry = currently_zeroed self in
           case homogenize E self of
             (Some err, self') \<Rightarrow> (Some err, self', r)
           | (None, self') \<Rightarrow>
               (case apply_bc E self' r None of
                  (Some err, r') \<Rightarrow> (Some err, self', r')
                | (None, r') \<Rightarrow>
                    (None, if \<not> zeroed_on_entry then restore self' else self', r'))))"

subsection \<open>Predicates of the specification and histories of calls\<close>

text \<open>
  The words of the documentation and of the specification, as predicates: \<open>admissible\<close>
  is the docstring's list of boundary values (a literal constant, an iterable of literal
  constants, an \<^verbatim>\<open>Expression\<close>, a \<^verbatim>\<open>Function\<close> on \<open>V\<close>); \<open>field_on V v\<close> says that
  \<open>v\<close> is a \<^verbatim>\<open>Function\<close> on \<open>V\<close>; \<open>invalid_value\<close> is the class of values for which
  the specification announces the \<^verbatim>\<open>ValueError\<close>.
\<close>

fun is_Literal :: "'a pyval \<Rightarrow> bool" where
  "is_Literal (Literal c) = True"
| "is_Literal v = False"

definition field_on :: "fspace \<Rightarrow> 'a pyval \<Rightarrow> bool" where
  "field_on V v = (case v of Function f \<Rightarrow> space f = V | _ \<Rightarrow> False)"

definition admissible :: "fspace \<Rightarrow> 'a pyval \<Rightarrow> bool" where
  "admissible V g =
     (case g of
        Literal c \<Rightarrow> True
      | Iterable xs \<Rightarrow> list_all is_Literal xs
      | Expression e \<Rightarrow> True
      | Function f \<Rightarrow> space f = V
      | Object k \<Rightarrow> False)"

definition invalid_value :: "'a env \<Rightarrow> fspace \<Rightarrow> 'a pyval \<Rightarrow> bool" where
  "invalid_value E V g =
     (\<not> is_Expression g \<and> \<not> field_on V g \<and> \<not> as_ufl g \<and> to_expression E g = None)"

text \<open>
  The \<^verbatim>\<open>Expression\<close> that the setter makes of \<open>g\<close>: \<open>g\<close> itself when it is one, and what
  \<^verbatim>\<open>to_expression\<close> returns for a value that is no \<^verbatim>\<open>Expression\<close> and that \<^verbatim>\<open>as_ufl\<close>
  rejects. \<open>field_data E V e d\<close>: the field that the setter makes of the \<^verbatim>\<open>Expression\<close> \<open>e\<close>
  has the data \<open>d\<close>, those that the interpolation of \<open>e\<close> on \<open>V\<close> returns, or those that the
  projection returns when the interpolation raises \<^verbatim>\<open>NotImplementedError\<close>.
  \<open>field_raises E V e c\<close>: making the field raises the exception \<open>c\<close>, which the interpolation
  raises (and is not \<^verbatim>\<open>NotImplementedError\<close>), or the projection after it.
\<close>

definition converts_to :: "'a env \<Rightarrow> 'a pyval \<Rightarrow> expression \<Rightarrow> bool" where
  "converts_to E g e =
     (g = Expression e \<or> (\<not> is_Expression g \<and> \<not> as_ufl g \<and> to_expression E g = Some e))"

definition field_data :: "'a env \<Rightarrow> fspace \<Rightarrow> expression \<Rightarrow> (nat \<Rightarrow> 'a) list \<Rightarrow> bool" where
  "field_data E V e d =
     (interpolate E V e = Inr d
      \<or> (interpolate E V e = Inl ''NotImplementedError'' \<and> project E e V = Inr d))"

definition field_raises :: "'a env \<Rightarrow> fspace \<Rightarrow> expression \<Rightarrow> string \<Rightarrow> bool" where
  "field_raises E V e c =
     ((interpolate E V e = Inl c \<and> c \<noteq> ''NotImplementedError'')
      \<or> (interpolate E V e = Inl ''NotImplementedError'' \<and> project E e V = Inl c))"

text \<open>
  The methods that change a boundary condition, and the state that a sequence of calls
  leaves. A caller that catches an exception goes on with the object as the exception
  left it.
\<close>

datatype 'a method_call =
  Homogenize | Restore | Set_value "'a pyval" | Set_function_arg "'a pyval" | Zero "'a target"

fun is_Set_value :: "'a method_call \<Rightarrow> bool" where
  "is_Set_value (Set_value g) = True"
| "is_Set_value c = False"

fun call :: "'a::{zero,minus} env \<Rightarrow> 'a method_call \<Rightarrow> 'a bc \<Rightarrow> 'a bc" where
  "call E Homogenize self = snd (homogenize E self)"
| "call E Restore self = restore self"
| "call E (Set_value g) self = snd (set_value E g self)"
| "call E (Set_function_arg g) self = snd (function_arg_setter E g self)"
| "call E (Zero r) self = fst (snd (zero E self r))"

fun calls :: "'a::{zero,minus} env \<Rightarrow> 'a method_call list \<Rightarrow> 'a bc \<Rightarrow> 'a bc" where
  "calls E [] self = self"
| "calls E (c # cs) self = calls E cs (call E c self)"

text \<open>
  The value that \<^verbatim>\<open>restore\<close> is to reinstate after the calls \<open>cs\<close> on a boundary condition on
  \<open>V\<close> constructed with the stored value \<open>v\<close>: the value stored by the last \<^verbatim>\<open>set_value\<close>
  that returned, and \<open>v\<close> when there is none.
\<close>

fun original_value ::
  "'a env \<Rightarrow> fspace \<Rightarrow> 'a pyval \<Rightarrow> 'a method_call list \<Rightarrow> 'a pyval" where
  "original_value E V v [] = v"
| "original_value E V v (Set_value g # cs) =
     original_value E V (case new_function_arg E V g of Inr v' \<Rightarrow> v' | Inl err \<Rightarrow> v) cs"
| "original_value E V v (c # cs) = original_value E V v cs"

text \<open>
  A homogenized boundary condition holds the literal 0: \<^verbatim>\<open>_currently_zeroed\<close> is set
  by \<^verbatim>\<open>homogenize\<close> alone, after it has stored 0, and every assignment of a value
  clears it.
\<close>

definition zeroed_is_zero :: "'a::zero bc \<Rightarrow> bool" where
  "zeroed_is_zero self = (if currently_zeroed self then function_arg self = Literal 0 else True)"


text \<open>
  A \<^verbatim>\<open>sub_domain\<close> that is neither of the two markers. \<open>broadcasts width m\<close>: an array of
  \<open>width\<close> columns and a one-dimensional array of \<open>m\<close> entries can be added.
\<close>

definition other_sub_domain :: "sub_domain \<Rightarrow> bool" where
  "other_sub_domain sd = (sd \<noteq> Marker ''bottom'' \<and> sd \<noteq> Marker ''top'')"

definition broadcasts :: "nat \<Rightarrow> nat \<Rightarrow> bool" where
  "broadcasts width m = (width = m \<or> width = 1 \<or> m = 1)"

section \<open>The parameter form: \<^verbatim>\<open>firedrake/gui_config.py\<close>\<close>

text \<open>
  Python 2 has two string types: \<^verbatim>\<open>str\<close>, a string of bytes, and \<^verbatim>\<open>unicode\<close>, a
  string of code points.
\<close>

datatype pystr = Str string | Unicode "nat list"

text \<open>
  Modelled from the spec: the class \<^verbatim>\<open>Parameters\<close> of the package, which is not among
  the sources at hand, is a dictionary of named values (a \<^verbatim>\<open>dict\<close> subclass, which
  \<^verbatim>\<open>json.dumps\<close> writes as an object), as the code uses it. The values of the module are
  \<^verbatim>\<open>None\<close>, booleans, numbers (the type \<open>'n\<close> of numbers is left open: they are only
  stored), strings, lists, plain dictionaries and \<^verbatim>\<open>Parameters\<close> objects. A dictionary
  is the list of its items, in the order of iteration; its keys are strings, as the keys
  of a JSON object and the names of parameters are.
\<close>

datatype 'n pyobj =
  PNone
  | PBool bool
  | PNum 'n
  | PText pystr
  | PList "'n pyobj list"
  | PDict "(pystr \<times> 'n pyobj) list"
  | Parameters "(pystr \<times> 'n pyobj) list"

text \<open>
  Python 2 equality of strings, which the lookup of a key uses: a \<^verbatim>\<open>str\<close> equals a
  \<^verbatim>\<open>unicode\<close> when it is ASCII and has the same codes. \<^verbatim>\<open>k in d\<close>, \<^verbatim>\<open>d[k]\<close> and
  \<^verbatim>\<open>d[k] = v\<close>; assigning to a key that is present keeps the key and replaces the value.
\<close>

definition ascii :: "string \<Rightarrow> bool" where
  "ascii s = list_all (\<lambda>c. of_char c < (128::nat)) s"

fun str_eq :: "pystr \<Rightarrow> pystr \<Rightarrow> bool" where
  "str_eq (Str a) (Str b) = (a = b)"
| "str_eq (Unicode a) (Unicode b) = (a = b)"
| "str_eq (Str a) (Unicode b) = (ascii a \<and> map of_char a = b)"
| "str_eq (Unicode a) (Str b) = (ascii b \<and> map of_char b = a)"

fun contains :: "(pystr \<times> 'v) list \<Rightarrow> pystr \<Rightarrow> bool" where
  "contains [] k = False"
| "contains ((k', v) # d) k = (str_eq k' k \<or> contains d k)"

fun getitem :: "(pystr \<times> 'v) list \<Rightarrow> pystr \<Rightarrow> 'v option" where
  "getitem [] k = None"
| "getitem ((k', v) # d) k = (if str_eq k' k then Some v else getitem d k)"

fun setitem :: "(pystr \<times> 'v) list \<Rightarrow> pystr \<Rightarrow> 'v \<Rightarrow> (pystr \<times> 'v) list" where
  "setitem [] k v = [(k, v)]"
| "setitem ((k', v') # d) k v = (if str_eq k' k then (k', v) # d else (k', v') # setitem d k v)"

text \<open>
  \<^verbatim>\<open>u.encode('ascii', 'ignore')\<close> drops the code points that are not ASCII. The line
  that \<^verbatim>\<open>print\<close> writes for a key that is ignored. The value that is stored for
  \<^verbatim>\<open>dictionary[k]\<close>: a \<^verbatim>\<open>unicode\<close> is turned into a \<^verbatim>\<open>str\<close>, any other value is stored
  as it is.
\<close>

definition encode_ascii_ignore :: "nat list \<Rightarrow> string" where
  "encode_ascii_ignore u = map char_of (filter (\<lambda>c. c < 128) u)"

definition warning :: "pystr \<Rightarrow> pystr" where
  "warning k =
     (case k of
        Str s \<Rightarrow> Str (''WARNING: '' @ s @ '' is not in the parameters and ignored'')
      | Unicode u \<Rightarrow> Unicode (map of_char ''WARNING: '' @ u
                               @ map of_char '' is not in the parameters and ignored''))"

definition str_if_unicode :: "'n pyobj \<Rightarrow> 'n pyobj" where
  "str_if_unicode v =
     (case v of
        PText (Unicode u) \<Rightarrow> PText (Str (encode_ascii_ignore u))
      | _ \<Rightarrow> v)"

text \<open>
  \<^verbatim>\<open>load_from_dict\<close> on a \<^verbatim>\<open>dictionary\<close> that is a list or a string: the loop runs
  over the elements or the characters. \<^verbatim>\<open>k in parameters\<close> raises \<^verbatim>\<open>TypeError\<close> for
  an element that cannot be hashed; for a key that is present, \<^verbatim>\<open>dictionary[k]\<close> raises
  \<^verbatim>\<open>TypeError\<close> (a list or a string is indexed by integers); for an element that is
  not a string, building the warning raises \<^verbatim>\<open>TypeError\<close>.
\<close>

fun hashable :: "'n pyobj \<Rightarrow> bool" where
  "hashable (PList xs) = False"
| "hashable (PDict d) = False"
| "hashable (Parameters d) = False"
| "hashable v = True"

fun load_keys ::
  "(pystr \<times> 'n pyobj) list \<Rightarrow> 'n pyobj list \<Rightarrow> error option \<times> (pystr \<times> 'n pyobj) list \<times> pystr list" where
  "load_keys parameters [] = (None, parameters, [])"
| "load_keys parameters (k # ks) =
     (if \<not> hashable k then (Some (Raised ''TypeError''), parameters, [])
      else (case k of
              PText t \<Rightarrow>
                (if contains parameters t then (Some (Raised ''TypeError''), parameters, [])
                 else (case load_keys parameters ks of
                         (r, parameters', out) \<Rightarrow> (r, parameters', warning t # out)))
            | _ \<Rightarrow> (Some (Raised ''TypeError''), parameters, [])))"

text \<open>
  \<^verbatim>\<open>load_from_dict\<close>, with the loop over the items of a dictionary as \<open>load_items\<close>. The
  result is the exception raised, if any, the parameters as the call leaves them (a
  nested \<^verbatim>\<open>Parameters\<close> object is changed in place, also when the nested call raises),
  and the lines printed. Iterating over \<^verbatim>\<open>None\<close>, a boolean or a number raises
  \<^verbatim>\<open>TypeError\<close>. The standard output is taken to accept every line.
\<close>

fun load_from_dict ::
  "(pystr \<times> 'n pyobj) list \<Rightarrow> 'n pyobj \<Rightarrow> error option \<times> (pystr \<times> 'n pyobj) list \<times> pystr list"
and load_items ::
  "(pystr \<times> 'n pyobj) list \<Rightarrow> (pystr \<times> 'n pyobj) list \<Rightarrow> error option \<times> (pystr \<times> 'n pyobj) list \<times> pystr list"
where
  "load_from_dict parameters (PDict d) = load_items parameters d"
| "load_from_dict parameters (Parameters d) = load_items parameters d"
| "load_from_dict parameters (PList xs) = load_keys parameters xs"
| "load_from_dict parameters (PText (Str s)) = load_keys parameters (map (\<lambda>c. PText (Str [c])) s)"
| "load_from_dict parameters (PText (Unicode u)) =
     load_keys parameters (map (\<lambda>c. PText (Unicode [c])) u)"
| "load_from_dict parameters PNone = (Some (Raised ''TypeError''), parameters, [])"
| "load_from_dict parameters (PBool b) = (Some (Raised ''TypeError''), parameters, [])"
| "load_from_dict parameters (PNum n) = (Some (Raised ''TypeError''), parameters, [])"
| "load_items parameters [] = (None, parameters, [])"
| "load_items parameters ((k, v) # d) =
     (case getitem parameters k of
        Some (Parameters sub) \<Rightarrow>
          (case load_from_dict sub v of
             (Some err, sub', out) \<Rightarrow> (Some err, setitem parameters k (Parameters sub'), out)
           | (None, sub', out) \<Rightarrow>
               (case load_items (setitem parameters k (Parameters sub')) d of
                  (r, parameters', out') \<Rightarrow> (r, parameters', out @ out')))
      | Some old \<Rightarrow> load_items (setitem parameters k (str_if_unicode v)) d
      | None \<Rightarrow>
          (case load_items parameters d of
             (r, parameters', out) \<Rightarrow> (r, parameters', warning k # out)))"

text \<open>
  A JSON document. The text of a file is modelled by the document it denotes:
  \<^verbatim>\<open>json.dumps\<close> gives the document of a value (a \<^verbatim>\<open>str\<close> is decoded: an ASCII string to
  its codes, any other by the parameter \<open>utf8\<close>, \<open>None\<close> when it cannot be decoded), and
  \<^verbatim>\<open>json.loads\<close> gives the value of a document, with every string a \<^verbatim>\<open>unicode\<close> and an
  object a \<^verbatim>\<open>dict\<close> (\<open>dict\<close> builds it, a repeated key keeping its last value).
\<close>

datatype 'n json =
  JNull
  | JBool bool
  | JNumber 'n
  | JString "nat list"
  | JArray "'n json list"
  | JObject "(nat list \<times> 'n json) list"

definition decode :: "(string \<Rightarrow> nat list option) \<Rightarrow> string \<Rightarrow> error + nat list" where
  "decode utf8 s =
     (if ascii s then Inr (map of_char s)
      else (case utf8 s of
              None \<Rightarrow> Inl (Raised ''UnicodeDecodeError'')
            | Some u \<Rightarrow> Inr u))"

definition dumps_str :: "(string \<Rightarrow> nat list option) \<Rightarrow> pystr \<Rightarrow> error + nat list" where
  "dumps_str utf8 t = (case t of Str s \<Rightarrow> decode utf8 s | Unicode u \<Rightarrow> Inr u)"

fun dumps :: "(string \<Rightarrow> nat list option) \<Rightarrow> 'n pyobj \<Rightarrow> error + 'n json"
and dumps_list :: "(string \<Rightarrow> nat list option) \<Rightarrow> 'n pyobj list \<Rightarrow> error + 'n json list"
and dumps_items ::
  "(string \<Rightarrow> nat list option) \<Rightarrow> (pystr \<times> 'n pyobj) list \<Rightarrow> error + (nat list \<times> 'n json) list"
where
  "dumps utf8 PNone = Inr JNull"
| "dumps utf8 (PBool b) = Inr (JBool b)"
| "dumps utf8 (PNum n) = Inr (JNumber n)"
| "dumps utf8 (PText t) =
     (case dumps_str utf8 t of Inl err \<Rightarrow> Inl err | Inr u \<Rightarrow> Inr (JString u))"
| "dumps utf8 (PList xs) =
     (case dumps_list utf8 xs of Inl err \<Rightarrow> Inl err | Inr js \<Rightarrow> Inr (JArray js))"
| "dumps utf8 (PDict d) =
     (case dumps_items utf8 d of Inl err \<Rightarrow> Inl err | Inr items \<Rightarrow> Inr (JObject items))"
| "dumps utf8 (Parameters d) =
     (case dumps_items utf8 d of Inl err \<Rightarrow> Inl err | Inr items \<Rightarrow> Inr (JObject items))"
| "dumps_list utf8 [] = Inr []"
| "dumps_list utf8 (x # xs) =
     (case dumps utf8 x of
        Inl err \<Rightarrow> Inl err
      | Inr j \<Rightarrow> (case dumps_list utf8 xs of Inl err \<Rightarrow> Inl err | Inr js \<Rightarrow> Inr (j # js)))"
| "dumps_items utf8 [] = Inr []"
| "dumps_items utf8 ((k, v) # d) =
     (case dumps_str utf8 k of
        Inl err \<Rightarrow> Inl err
      | Inr u \<Rightarrow>
          (case dumps utf8 v of
             Inl err \<Rightarrow> Inl err
           | Inr j \<Rightarrow>
               (case dumps_items utf8 d of
                  Inl err \<Rightarrow> Inl err
                | Inr items \<Rightarrow> Inr ((u, j) # items))))"

fun dict :: "(pystr \<times> 'v) list \<Rightarrow> (pystr \<times> 'v) list \<Rightarrow> (pystr \<times> 'v) list" where
  "dict d [] = d"
| "dict d ((k, v) # items) = dict (setitem d k v) items"

fun loads :: "'n json \<Rightarrow> 'n pyobj"
and loads_list :: "'n json list \<Rightarrow> 'n pyobj list"
and loads_items :: "(nat list \<times> 'n json) list \<Rightarrow> (pystr \<times> 'n pyobj) list"
where
  "loads JNull = PNone"
| "loads (JBool b) = PBool b"
| "loads (JNumber n) = PNum n"
| "loads (JString u) = PText (Unicode u)"
| "loads (JArray js) = PList (loads_list js)"
| "loads (JObject items) = PDict (dict [] (loads_items items))"
| "loads_list [] = []"
| "loads_list (j # js) = loads j # loads_list js"
| "loads_items [] = []"
| "loads_items ((u, j) # items) = (Unicode u, loads j) # loads_items items"

text \<open>
  A file holds a JSON text or any other text. \<^verbatim>\<open>open(filename, 'w')\<close> empties the file
  before \<^verbatim>\<open>json.dumps\<close> runs, so a value that cannot be written leaves a file that is
  not JSON; the empty file name cannot be opened. \<^verbatim>\<open>import_params_from_json\<close> returns
  the \<^verbatim>\<open>parameters\<close> object: the first component of the result is the exception or the
  returned object, the second the object as the call leaves it.
\<close>

datatype 'n content = Json_text "'n json" | Other_text

definition export_params_to_json ::
  "(string \<Rightarrow> nat list option) \<Rightarrow> 'n pyobj \<Rightarrow> string \<Rightarrow> (string \<Rightarrow> 'n content option)
   \<Rightarrow> error option \<times> (string \<Rightarrow> 'n content option)" where
  "export_params_to_json utf8 parameters filename files =
     (if filename = [] then (Some (Raised ''IOError''), files)
      else
        (case dumps utf8 parameters of
           Inl err \<Rightarrow> (Some err, files(filename \<mapsto> Other_text))
         | Inr j \<Rightarrow> (None, files(filename \<mapsto> Json_text j))))"

definition import_params_from_json ::
  "(pystr \<times> 'n pyobj) list \<Rightarrow> string \<Rightarrow> (string \<Rightarrow> 'n content option)
   \<Rightarrow> (error + (pystr \<times> 'n pyobj) list) \<times> (pystr \<times> 'n pyobj) list \<times> pystr list" where
  "import_params_from_json parameters filename files =
     (case files filename of
        None \<Rightarrow> (Inl (Raised ''IOError''), parameters, [])
      | Some Other_text \<Rightarrow> (Inl (Raised ''ValueError''), parameters, [])
      | Some (Json_text j) \<Rightarrow>
          (case load_from_dict parameters (loads j) of
             (Some err, parameters', out) \<Rightarrow> (Inl err, parameters', out)
           | (None, parameters', out) \<Rightarrow> (Inr parameters', parameters', out)))"

text \<open>
  \<^verbatim>\<open>show_config_gui\<close>: the calls into Tkinter in their order, and the clicks of the user
  on the two buttons (with the file name chosen in the dialog) that \<^verbatim>\<open>mainloop\<close> serves
  until the window is closed. Tkinter reports an exception of a callback and goes on.
\<close>

datatype gui_call =
  Tk | Frame string | Grid | Columnconfigure | Rowconfigure | Button string | Mainloop

datatype click = Load_from_File string | Save_to_File string

fun mainloop ::
  "(string \<Rightarrow> nat list option) \<Rightarrow> click list \<Rightarrow> (pystr \<times> 'n pyobj) list \<Rightarrow> (string \<Rightarrow> 'n content option)
   \<Rightarrow> pystr list \<Rightarrow> (pystr \<times> 'n pyobj) list \<times> (string \<Rightarrow> 'n content option) \<times> pystr list" where
  "mainloop utf8 [] parameters files out = (parameters, files, out)"
| "mainloop utf8 (Load_from_File filename # clicks) parameters files out =
     (case import_params_from_json parameters filename files of
        (r, parameters', out') \<Rightarrow> mainloop utf8 clicks parameters' files (out @ out'))"
| "mainloop utf8 (Save_to_File filename # clicks) parameters files out =
     (case export_params_to_json utf8 (Parameters parameters) filename files of
        (r, files') \<Rightarrow> mainloop utf8 clicks parameters files' out)"

definition show_config_gui ::
  "(string \<Rightarrow> nat list option) \<Rightarrow> 'n pyobj \<Rightarrow> click list \<Rightarrow> (string \<Rightarrow> 'n content option)
   \<Rightarrow> error option \<times> 'n pyobj \<times> (string \<Rightarrow> 'n content option) \<times> gui_call list \<times> pystr list" where
  "show_config_gui utf8 parameters clicks files =
     (case parameters of
        Parameters d \<Rightarrow>
          (case mainloop utf8 clicks d files [] of
             (d', files', out) \<Rightarrow>
               (None, Parameters d', files',
                [Tk, Frame ''3 3 12 12'', Grid, Columnconfigure, Rowconfigure,
                 Button ''Load from File'', Grid, Button ''Save to File'', Grid, Mainloop],
                out))
      | _ \<Rightarrow> (Some TypeError, parameters, files, [], []))"

text \<open>
  \<^verbatim>\<open>isinstance(v, Parameters)\<close>.
\<close>

fun is_Parameters :: "'n pyobj \<Rightarrow> bool" where
  "is_Parameters (Parameters d) = True"
| "is_Parameters v = False"

text \<open>
  \<open>keys_kept d d'\<close>: the parameters \<open>d'\<close> have the keys of \<open>d\<close>, in the same order, and where
  \<open>d\<close> holds a nested \<^verbatim>\<open>Parameters\<close> object, \<open>d'\<close> holds one too, with the keys kept in
  the same sense.
\<close>

fun kept_value :: "'n pyobj \<Rightarrow> 'n pyobj \<Rightarrow> bool"
and keys_kept :: "(pystr \<times> 'n pyobj) list \<Rightarrow> (pystr \<times> 'n pyobj) list \<Rightarrow> bool"
where
  "kept_value (Parameters d) v' = (case v' of Parameters d' \<Rightarrow> keys_kept d d' | _ \<Rightarrow> False)"
| "kept_value PNone v' = True"
| "kept_value (PBool b) v' = True"
| "kept_value (PNum n) v' = True"
| "kept_value (PText t) v' = True"
| "kept_value (PList xs) v' = True"
| "kept_value (PDict d) v' = True"
| "keys_kept [] d' = (d' = [])"
| "keys_kept ((k, v) # d) d' =
     (case d' of
        [] \<Rightarrow> False
      | (k', v') # e' \<Rightarrow> k' = k \<and> kept_value v v' \<and> keys_kept d e')"






subsection \<open>Examples\<close>

text \<open>
  A mesh of three exterior facets with two nodes each, two spaces on it, collaborators
  that turn a list into an \<^verbatim>\<open>Expression\<close> and interpolate to the constant 7, and
  boundary conditions and fields on them.
\<close>

definition mesh1 :: mesh_data where
  "mesh1 = \<lparr>extruded = False, layers = 1, node_count = 6, bottom_nodes = [], top_nodes = [],
     arity = 2, values_with_halo = [[0, 1], [1, 2], [2, 5]], offset = [0, 0],
     exterior_facets = (\<lambda>sd. if sd = Tag 1 then [0, 1] else if sd = Tag 2 then [2] else []),
     old_exterior_facets = (\<lambda>sd. [])\<rparr>"

definition V1 :: fspace where
  "V1 = FunctionSpace 1 None None mesh1"

definition V2 :: fspace where
  "V2 = FunctionSpace 2 None None mesh1"

definition env0 :: "int env" where
  "env0 = \<lparr>to_expression = (\<lambda>g. case g of Iterable xs \<Rightarrow> Some (Expr (map (\<lambda>x. ''c'') xs)) | _ \<Rightarrow> None),
     interpolate = (\<lambda>V e. Inr [\<lambda>n. 7]),
     project = (\<lambda>e V. Inr [\<lambda>n. 7]),
     add_bc = (\<lambda>m b. b # m)\<rparr>"

definition bc_one :: "int bc" where
  "bc_one = \<lparr>function_space = V1, function_arg = Literal 1, original_arg = Literal 1,
     sub_domain = Tag 1, currently_zeroed = False\<rparr>"

definition bc_two :: "int bc" where
  "bc_two = \<lparr>function_space = V1, function_arg = Literal 2, original_arg = Literal 1,
     sub_domain = Tag 1, currently_zeroed = False\<rparr>"

text \<open>
  The boundary condition \<open>bc_one\<close> after \<^verbatim>\<open>set_value(3)\<close> and a direct assignment of 2.
\<close>

definition bc_three :: "int bc" where
  "bc_three = \<lparr>function_space = V1, function_arg = Literal 2, original_arg = Literal 3,
     sub_domain = Tag 1, currently_zeroed = False\<rparr>"

definition f_nine :: "int func" where
  "f_nine = \<lparr>space = V1, dat = [\<lambda>n. 9]\<rparr>"


text \<open>
  An extruded mesh of two cell layers (three layers of nodes) on two base facets.
\<close>

definition mesh2 :: mesh_data where
  "mesh2 = \<lparr>extruded = True, layers = 3, node_count = 6, bottom_nodes = [0, 3], top_nodes = [2, 5],
     arity = 2, values_with_halo = [[0, 1], [3, 4]], offset = [1, 1],
     exterior_facets = (\<lambda>sd. []),
     old_exterior_facets = (\<lambda>sd. if sd = Tag 1 then [0, 1] else [])\<rparr>"

definition bc_ext :: "int bc" where
  "bc_ext = \<lparr>function_space = FunctionSpace 3 None None mesh2, function_arg = Literal 0,
     original_arg = Literal 0, sub_domain = Tag 1, currently_zeroed = False\<rparr>"

text \<open>
  The same mesh with an offset of three entries for a map of two columns, and a boundary
  condition on it whose id no facet carries.
\<close>

definition mesh3 :: mesh_data where
  "mesh3 = mesh2\<lparr>offset := [1, 1, 1]\<rparr>"

definition bc_wide :: "int bc" where
  "bc_wide = \<lparr>function_space = FunctionSpace 4 None None mesh3, function_arg = Literal 0,
     original_arg = Literal 0, sub_domain = Tag 7, currently_zeroed = False\<rparr>"

text \<open>
  Parameters with a nested \<^verbatim>\<open>Parameters\<close> object, and a dictionary as \<^verbatim>\<open>json.loads\<close>
  returns it.
\<close>

definition params0 :: "(pystr \<times> int pyobj) list" where
  "params0 = [(Str ''a'', PNum 1), (Str ''sub'', Parameters [(Str ''b'', PText (Str ''x''))])]"

definition dictionary0 :: "int pyobj" where
  "dictionary0 =
     PDict [(Unicode [97], PNum 5), (Unicode [122, 122], PNum 3),
            (Unicode [115, 117, 98],
               PDict [(Unicode [98], PText (Unicode [104, 233])), (Unicode [110], PBool True)])]"



section \<open>Properties of the boundary conditions\<close>

subsection \<open>The stored boundary value\<close>

lemma new_function_arg_Literal: "new_function_arg E V (Literal c) = Inr (Literal c)"
  by (simp add: new_function_arg_def to_ufl_or_expression_def to_field_def)

lemma new_function_arg_Function:
  "new_function_arg E V (Function f) = (if space f = V then Inr (Function f) else Inl RuntimeError)"
  by (simp add: new_function_arg_def to_ufl_or_expression_def to_field_def)

lemma new_function_arg_result:
  assumes "new_function_arg E V g = Inr v"
  shows "(case g of Literal c \<Rightarrow> v = g | Function f \<Rightarrow> v = g \<and> space f = V | _ \<Rightarrow> field_on V v)"
  using assms
  by (cases g)
     (auto simp: new_function_arg_def to_ufl_or_expression_def to_field_def field_on_def
           split: sum.splits if_splits option.splits)

lemma homogenize_eq:
  "homogenize E self = (None, self\<lparr>function_arg := Literal 0, currently_zeroed := True\<rparr>)"
  by (simp add: homogenize_def function_arg_setter_def new_function_arg_Literal)

lemma new_function_arg_converted:
  assumes "converts_to E g e"
  shows "new_function_arg E V g =
           (case interpolate E V e of
              Inr d \<Rightarrow> Inr (Function \<lparr>space = V, dat = d\<rparr>)
            | Inl c \<Rightarrow>
                if c = ''NotImplementedError'' then
                  (case project E e V of
                     Inr d \<Rightarrow> Inr (Function \<lparr>space = V, dat = d\<rparr>)
                   | Inl c' \<Rightarrow> Inl (Raised c'))
                else Inl (Raised c))"
  using assms
  by (cases g)
     (auto simp: converts_to_def new_function_arg_def to_ufl_or_expression_def to_field_def)

lemma new_function_arg_field:
  assumes "converts_to E g e" and "field_data E V e d"
  shows "new_function_arg E V g = Inr (Function \<lparr>space = V, dat = d\<rparr>)"
  using assms(2) by (auto simp: new_function_arg_converted [OF assms(1)] field_data_def)

lemma new_function_arg_raises:
  assumes "converts_to E g e" and "field_raises E V e c"
  shows "new_function_arg E V g = Inl (Raised c)"
  using assms(2) by (auto simp: new_function_arg_converted [OF assms(1)] field_raises_def)

lemma new_function_arg_cases:
  "(is_Literal g \<or> field_on V g) \<and> new_function_arg E V g = Inr g
   \<or> (\<exists>f. g = Function f \<and> space f \<noteq> V) \<and> new_function_arg E V g = Inl RuntimeError
   \<or> invalid_value E V g \<and> new_function_arg E V g = Inl ValueError
   \<or> (\<exists>e d. converts_to E g e \<and> field_data E V e d
          \<and> new_function_arg E V g = Inr (Function \<lparr>space = V, dat = d\<rparr>))
   \<or> (\<exists>e c. converts_to E g e \<and> field_raises E V e c
          \<and> new_function_arg E V g = Inl (Raised c))"
proof (cases "is_Literal g \<or> field_on V g \<or> (\<exists>f. g = Function f \<and> space f \<noteq> V)")
  case True
  then show ?thesis
    by (cases g) (auto simp: new_function_arg_Literal new_function_arg_Function field_on_def)
next
  case False
  then have nl: "\<not> is_Literal g" and nf: "\<forall>f. g \<noteq> Function f"
    by (auto simp: field_on_def)
  show ?thesis
  proof (cases "\<exists>e. converts_to E g e")
    case True
    then obtain e where e: "converts_to E g e" by blast
    have "(\<exists>d. field_data E V e d) \<or> (\<exists>c. field_raises E V e c)"
      by (cases "interpolate E V e"; cases "project E e V") (auto simp: field_data_def field_raises_def)
    then show ?thesis
      using e new_function_arg_field [OF e] new_function_arg_raises [OF e] by blast
  next
    case False
    then have "invalid_value E V g" and "new_function_arg E V g = Inl ValueError"
      using nl nf
      by (cases g; auto simp: converts_to_def invalid_value_def field_on_def new_function_arg_def
            to_ufl_or_expression_def split: option.splits)+
    then show ?thesis by blast
  qed
qed

lemma converts_to_not_plain:
  "converts_to E g e \<Longrightarrow> \<not> is_Literal g \<and> \<not> field_on V g \<and> \<not> invalid_value E V g
     \<and> (\<forall>f. g \<noteq> Function f)"
  by (cases g) (auto simp: converts_to_def field_on_def invalid_value_def)

lemma V1_neq_V2: "V1 \<noteq> V2" "V2 \<noteq> V1"
  by (simp_all add: V1_def V2_def)

lemma parent_V1: "parent V1 = None"
  by (simp add: V1_def)

lemma index_V1: "index V1 = None"
  by (simp add: V1_def)

text \<open>
  Claim C1, as amended. Let \<open>g\<close> be an admissible boundary value. If \<open>g\<close> is a literal
  constant or a \<^verbatim>\<open>Function\<close> on \<open>V\<close>, the constructor returns and \<^verbatim>\<open>set_value(g)\<close> returns,
  and the stored \<^verbatim>\<open>function_arg\<close> (and the original value) is \<open>g\<close> itself: a constant is
  kept as it is, it is not turned into a field. If \<open>g\<close> is an \<^verbatim>\<open>Expression\<close> or an iterable
  that is converted to the \<^verbatim>\<open>Expression\<close> \<open>e\<close>, and the interpolation of \<open>e\<close> on \<open>V\<close>, or its
  projection when the interpolation is not implemented, returns the data \<open>d\<close>, the
  constructor and \<^verbatim>\<open>set_value(g)\<close> return and the stored value is the \<^verbatim>\<open>Function\<close> on \<open>V\<close>
  of the data \<open>d\<close>. The constructor and \<^verbatim>\<open>set_value\<close> return in no other case.
\<close>

theorem function_arg_stored:
  assumes "admissible V g"
  shows "(is_Literal g \<or> field_on V g \<longrightarrow>
            DirichletBC E V g sd =
              Inr \<lparr>function_space = V, function_arg = g, original_arg = g,
                   sub_domain = sd, currently_zeroed = False\<rparr>
          \<and> (\<forall>self. function_space self = V \<longrightarrow>
                 set_value E g self =
                   (None, self\<lparr>function_arg := g, original_arg := g, currently_zeroed := False\<rparr>)))
       \<and> (\<forall>e d. converts_to E g e \<and> field_data E V e d \<longrightarrow>
            DirichletBC E V g sd =
              Inr \<lparr>function_space = V, function_arg = Function \<lparr>space = V, dat = d\<rparr>,
                   original_arg = Function \<lparr>space = V, dat = d\<rparr>,
                   sub_domain = sd, currently_zeroed = False\<rparr>
          \<and> (\<forall>self. function_space self = V \<longrightarrow>
                 set_value E g self =
                   (None, self\<lparr>function_arg := Function \<lparr>space = V, dat = d\<rparr>,
                                original_arg := Function \<lparr>space = V, dat = d\<rparr>,
                                currently_zeroed := False\<rparr>)))
       \<and> ((\<exists>self. DirichletBC E V g sd = Inr self) \<longrightarrow>
            is_Literal g \<or> field_on V g \<or> (\<exists>e d. converts_to E g e \<and> field_data E V e d))
       \<and> (\<forall>self. function_space self = V \<and> fst (set_value E g self) = None \<longrightarrow>
            is_Literal g \<or> field_on V g \<or> (\<exists>e d. converts_to E g e \<and> field_data E V e d))"
proof -
  have plain: "new_function_arg E V g = Inr g" if "is_Literal g \<or> field_on V g"
    using that
    by (cases g) (auto simp: new_function_arg_Literal new_function_arg_Function field_on_def)
  have a: "is_Literal g \<or> field_on V g \<longrightarrow>
            DirichletBC E V g sd =
              Inr \<lparr>function_space = V, function_arg = g, original_arg = g,
                   sub_domain = sd, currently_zeroed = False\<rparr>
          \<and> (\<forall>self. function_space self = V \<longrightarrow>
                 set_value E g self =
                   (None, self\<lparr>function_arg := g, original_arg := g, currently_zeroed := False\<rparr>))"
    using plain by (auto simp: DirichletBC_def set_value_def function_arg_setter_def)
  have b: "\<forall>e d. converts_to E g e \<and> field_data E V e d \<longrightarrow>
            DirichletBC E V g sd =
              Inr \<lparr>function_space = V, function_arg = Function \<lparr>space = V, dat = d\<rparr>,
                   original_arg = Function \<lparr>space = V, dat = d\<rparr>,
                   sub_domain = sd, currently_zeroed = False\<rparr>
          \<and> (\<forall>self. function_space self = V \<longrightarrow>
                 set_value E g self =
                   (None, self\<lparr>function_arg := Function \<lparr>space = V, dat = d\<rparr>,
                                original_arg := Function \<lparr>space = V, dat = d\<rparr>,
                                currently_zeroed := False\<rparr>))"
    using new_function_arg_field [of E g _ V]
    by (auto simp: DirichletBC_def set_value_def function_arg_setter_def)
  have returns: "is_Literal g \<or> field_on V g \<or> (\<exists>e d. converts_to E g e \<and> field_data E V e d)"
    if "new_function_arg E V g = Inr v" for v
    using that new_function_arg_cases [of g V E] by fastforce
  have c: "(\<exists>self. DirichletBC E V g sd = Inr self) \<longrightarrow>
            is_Literal g \<or> field_on V g \<or> (\<exists>e d. converts_to E g e \<and> field_data E V e d)"
  proof
    assume "\<exists>self. DirichletBC E V g sd = Inr self"
    then obtain v where "new_function_arg E V g = Inr v"
      by (cases "new_function_arg E V g") (auto simp: DirichletBC_def)
    then show "is_Literal g \<or> field_on V g \<or> (\<exists>e d. converts_to E g e \<and> field_data E V e d)"
      using returns by blast
  qed
  have d: "\<forall>self. function_space self = V \<and> fst (set_value E g self) = None \<longrightarrow>
            is_Literal g \<or> field_on V g \<or> (\<exists>e d. converts_to E g e \<and> field_data E V e d)"
  proof (intro allI impI)
    fix self :: "'a bc"
    assume h: "function_space self = V \<and> fst (set_value E g self) = None"
    then obtain v where "new_function_arg E V g = Inr v"
      by (cases "new_function_arg E V g") (auto simp: set_value_def function_arg_setter_def)
    then show "is_Literal g \<or> field_on V g \<or> (\<exists>e d. converts_to E g e \<and> field_data E V e d)"
      using returns by blast
  qed
  from a b c d show ?thesis by blast
qed

text \<open>
  Claim C1, witness: the list \<^verbatim>\<open>[1, 2]\<close> is stored as the interpolated field on the
  space, by the constructor and by \<^verbatim>\<open>set_value\<close>.
\<close>

theorem function_arg_stored_witness:
  "admissible V1 (Iterable [Literal (1::int), Literal 2])
   \<and> converts_to env0 (Iterable [Literal 1, Literal 2]) (Expr [''c'', ''c''])
   \<and> field_data env0 V1 (Expr [''c'', ''c'']) [\<lambda>n. 7]
   \<and> DirichletBC env0 V1 (Iterable [Literal 1, Literal 2]) (Tag 1) =
       Inr \<lparr>function_space = V1, function_arg = Function \<lparr>space = V1, dat = [\<lambda>n. 7]\<rparr>,
            original_arg = Function \<lparr>space = V1, dat = [\<lambda>n. 7]\<rparr>,
            sub_domain = Tag 1, currently_zeroed = False\<rparr>
   \<and> set_value env0 (Iterable [Literal 1, Literal 2]) bc_one =
       (None, bc_one\<lparr>function_arg := Function \<lparr>space = V1, dat = [\<lambda>n. 7]\<rparr>,
                     original_arg := Function \<lparr>space = V1, dat = [\<lambda>n. 7]\<rparr>,
                     currently_zeroed := False\<rparr>)"
proof -
  have a: "admissible V1 (Iterable [Literal (1::int), Literal 2])"
    by (simp add: admissible_def)
  have c: "converts_to env0 (Iterable [Literal 1, Literal 2]) (Expr [''c'', ''c''])"
    by (simp add: converts_to_def env0_def)
  have f: "field_data env0 V1 (Expr [''c'', ''c'']) [\<lambda>n. 7]"
    by (simp add: field_data_def env0_def)
  have s: "function_space bc_one = V1" by (simp add: bc_one_def)
  show ?thesis
    using function_arg_stored [OF a, of env0 "Tag 1"] a c f s by blast
qed

text \<open>
  Claim C1, counterexample to the claim as stated: constructed with the literal constant
  1, the boundary condition stores the constant 1, which is not a \<^verbatim>\<open>Function\<close>.
\<close>

theorem literal_not_normalized:
  "admissible V1 (Literal (1::int))
   \<and> DirichletBC env0 V1 (Literal 1) (Tag 1) = Inr bc_one
   \<and> \<not> field_on V1 (function_arg bc_one)"
  by (simp add: admissible_def DirichletBC_def new_function_arg_Literal bc_one_def field_on_def)

text \<open>
  Claim C4, as amended. Assigning \<open>g\<close> raises the \<^verbatim>\<open>ValueError\<close> of line 60 if and only
  if \<open>g\<close> is not an \<^verbatim>\<open>Expression\<close>, is not a \<^verbatim>\<open>Function\<close> on the space,
  \<^verbatim>\<open>as_ufl\<close> rejects it and \<^verbatim>\<open>to_expression\<close> fails on it. It raises \<^verbatim>\<open>RuntimeError\<close>
  if and only if \<open>g\<close> is a \<^verbatim>\<open>Function\<close> on a different space. It is accepted if and only
  if \<open>g\<close> is a literal constant, a \<^verbatim>\<open>Function\<close> on the space, or an \<^verbatim>\<open>Expression\<close> (given
  or converted) whose interpolation, or projection when the interpolation is not
  implemented, returns. It raises an exception \<open>c\<close> of a collaborator if and only if that
  interpolation or projection raises \<open>c\<close>; no other exception is raised. So every value
  outside the classes of the \<^verbatim>\<open>ValueError\<close> and the \<^verbatim>\<open>RuntimeError\<close> is accepted, and a
  value stored with the homogenized flag cleared, unless the interpolation or the
  projection raises.
\<close>

theorem invalid_value_raises:
  "(fst (function_arg_setter E g self) = Some ValueError
      \<longleftrightarrow> invalid_value E (function_space self) g)
   \<and> (fst (function_arg_setter E g self) = Some RuntimeError
      \<longleftrightarrow> (\<exists>f. g = Function f \<and> space f \<noteq> function_space self))
   \<and> (fst (function_arg_setter E g self) = None
      \<longleftrightarrow> is_Literal g \<or> field_on (function_space self) g
          \<or> (\<exists>e d. converts_to E g e \<and> field_data E (function_space self) e d))
   \<and> (\<forall>c. fst (function_arg_setter E g self) = Some (Raised c)
      \<longleftrightarrow> (\<exists>e. converts_to E g e \<and> field_raises E (function_space self) e c))
   \<and> fst (function_arg_setter E g self) \<noteq> Some TypeError
   \<and> fst (function_arg_setter E g self) \<noteq> Some NotImplementedError
   \<and> (\<not> invalid_value E (function_space self) g
        \<and> \<not> (\<exists>f. g = Function f \<and> space f \<noteq> function_space self)
        \<and> \<not> (\<exists>e c. converts_to E g e \<and> field_raises E (function_space self) e c)
      \<longrightarrow> (\<exists>v. function_arg_setter E g self
                  = (None, self\<lparr>function_arg := v, currently_zeroed := False\<rparr>)))"
proof -
  let ?V = "function_space self"
  let ?A = "invalid_value E ?V g"
  let ?B = "\<exists>f. g = Function f \<and> space f \<noteq> ?V"
  let ?C = "is_Literal g \<or> field_on ?V g \<or> (\<exists>e d. converts_to E g e \<and> field_data E ?V e d)"
  let ?D = "\<lambda>c. \<exists>e. converts_to E g e \<and> field_raises E ?V e c"
  let ?r = "fst (function_arg_setter E g self)"
  have setter: "function_arg_setter E g self
                  = (case new_function_arg E ?V g of
                       Inl err \<Rightarrow> (Some err, self)
                     | Inr v \<Rightarrow> (None, self\<lparr>function_arg := v, currently_zeroed := False\<rparr>))"
    by (simp add: function_arg_setter_def)
  have lit_fun: "\<not> ?A \<and> (\<forall>e. \<not> converts_to E g e)" if "is_Literal g \<or> (\<exists>f. g = Function f)"
    using that by (cases g) (auto simp: invalid_value_def converts_to_def)
  have conv_excl: "\<not> is_Literal g \<and> \<not> field_on ?V g \<and> \<not> ?A \<and> (\<forall>f. g \<noteq> Function f)"
    if "converts_to E g e" for e
    using that converts_to_not_plain by blast
  have inv_excl: "\<not> is_Literal g \<and> \<not> field_on ?V g \<and> (\<forall>f. g \<noteq> Function f)
             \<and> (\<forall>e. \<not> converts_to E g e)" if "?A"
    using that by (cases g) (auto simp: invalid_value_def field_on_def converts_to_def)
  have plain_excl: "(is_Literal g \<or> (\<exists>f. g = Function f)) \<and> \<not> ?B"
    if "is_Literal g \<or> field_on ?V g"
    using that by (cases g) (auto simp: field_on_def)
  have oth_excl: "\<not> is_Literal g \<and> \<not> field_on ?V g \<and> (\<exists>f. g = Function f)" if "?B"
    using that by (auto simp: field_on_def)
  have data_raises: "\<not> field_raises E ?V e c" if "field_data E ?V e d" for e d c
    using that by (auto simp: field_data_def field_raises_def)
  have same_e: "e = e'" if "converts_to E g e" "converts_to E g e'" for e e'
    using that by (auto simp: converts_to_def)
  have raises_c: "c = c'" if "field_raises E ?V e c" "field_raises E ?V e c'" for e c c'
    using that by (auto simp: field_raises_def)
  consider (plain) "is_Literal g \<or> field_on ?V g" "new_function_arg E ?V g = Inr g"
    | (other) "?B" "new_function_arg E ?V g = Inl RuntimeError"
    | (invalid) "?A" "new_function_arg E ?V g = Inl ValueError"
    | (data) e d where "converts_to E g e" "field_data E ?V e d"
        "new_function_arg E ?V g = Inr (Function \<lparr>space = ?V, dat = d\<rparr>)"
    | (raises) e c where "converts_to E g e" "field_raises E ?V e c"
        "new_function_arg E ?V g = Inl (Raised c)"
    using new_function_arg_cases [of g ?V E] by blast
  then show ?thesis
  proof cases
    case plain
    have r: "function_arg_setter E g self
               = (None, self\<lparr>function_arg := g, currently_zeroed := False\<rparr>)"
      using plain(2) by (simp add: setter)
    have lf: "is_Literal g \<or> (\<exists>f. g = Function f)" and nB: "\<not> ?B"
      using plain_excl [OF plain(1)] by blast+
    have nA: "\<not> ?A" and nconv: "\<forall>e. \<not> converts_to E g e"
      using lit_fun [OF lf] by blast+
    have C: "?C" using plain(1) by blast
    have nD: "\<not> ?D c" for c using nconv by blast
    have acc: "\<exists>v. function_arg_setter E g self
                 = (None, self\<lparr>function_arg := v, currently_zeroed := False\<rparr>)"
      using r by blast
    have rf: "?r = None" using r by simp
    show ?thesis using rf acc nA nB C nD by simp
  next
    case other
    have r: "function_arg_setter E g self = (Some RuntimeError, self)"
      using other(2) by (simp add: setter)
    have o: "\<not> is_Literal g" "\<not> field_on ?V g" "\<exists>f. g = Function f"
      using oth_excl [OF other(1)] by blast+
    have nA: "\<not> ?A" and nconv: "\<forall>e. \<not> converts_to E g e"
      using lit_fun o(3) by blast+
    have nC: "\<not> ?C" using o nconv by blast
    have nD: "\<not> ?D c" for c using nconv by blast
    show ?thesis using r nA other(1) nC nD by simp
  next
    case invalid
    have r: "function_arg_setter E g self = (Some ValueError, self)"
      using invalid(2) by (simp add: setter)
    have i: "\<not> is_Literal g" "\<not> field_on ?V g" "\<forall>f. g \<noteq> Function f"
      "\<forall>e. \<not> converts_to E g e"
      using inv_excl [OF invalid(1)] by blast+
    have nB: "\<not> ?B" using i(3) by blast
    have nC: "\<not> ?C" using i by blast
    have nD: "\<not> ?D c" for c using i(4) by blast
    show ?thesis using r invalid(1) nB nC nD by simp
  next
    case (data e d)
    have r: "function_arg_setter E g self
               = (None, self\<lparr>function_arg := Function \<lparr>space = ?V, dat = d\<rparr>,
                             currently_zeroed := False\<rparr>)"
      using data(3) by (simp add: setter)
    have c: "\<not> is_Literal g" "\<not> field_on ?V g" "\<not> ?A" "\<forall>f. g \<noteq> Function f"
      using conv_excl [OF data(1)] by blast+
    have nB: "\<not> ?B" using c(4) by blast
    have C: "?C" using data(1,2) by blast
    have nD: "\<not> ?D c" for c
    proof
      assume "?D c"
      then obtain e' where "converts_to E g e'" "field_raises E ?V e' c" by blast
      then have "field_raises E ?V e c" using same_e [OF data(1)] by blast
      then show False using data_raises [OF data(2)] by blast
    qed
    have acc: "\<exists>v. function_arg_setter E g self
                 = (None, self\<lparr>function_arg := v, currently_zeroed := False\<rparr>)"
      using r by blast
    have rf: "?r = None" using r by simp
    show ?thesis using rf acc c(3) nB C nD by simp
  next
    case (raises e c)
    have r: "function_arg_setter E g self = (Some (Raised c), self)"
      using raises(3) by (simp add: setter)
    have x: "\<not> is_Literal g" "\<not> field_on ?V g" "\<not> ?A" "\<forall>f. g \<noteq> Function f"
      using conv_excl [OF raises(1)] by blast+
    have nB: "\<not> ?B" using x(4) by blast
    have nodata: "\<not> (\<exists>e d. converts_to E g e \<and> field_data E ?V e d)"
    proof
      assume "\<exists>e d. converts_to E g e \<and> field_data E ?V e d"
      then obtain e' d where "converts_to E g e'" "field_data E ?V e' d" by blast
      then have "field_data E ?V e d" using same_e [OF raises(1)] by blast
      then show False using data_raises raises(2) by blast
    qed
    have nC: "\<not> ?C" using x(1,2) nodata by blast
    have D: "?D c' \<longleftrightarrow> c = c'" for c'
    proof
      assume "?D c'"
      then obtain e' where "converts_to E g e'" "field_raises E ?V e' c'" by blast
      then have "field_raises E ?V e c'" using same_e [OF raises(1)] by blast
      then show "c = c'" using raises_c [OF raises(2)] by blast
    next
      assume "c = c'"
      then show "?D c'" using raises(1,2) by blast
    qed
    have ex: "\<exists>e c. converts_to E g e \<and> field_raises E ?V e c"
      using raises(1,2) by blast
    have rf: "?r = Some (Raised c)" using r by simp
    show ?thesis using rf x(3) nB nC D ex by simp
  qed
qed

text \<open>
  Claim C4, witness: an object that is no UFL value and that \<^verbatim>\<open>to_expression\<close> rejects,
  and an \<^verbatim>\<open>Expression\<close> that is interpolated and accepted.
\<close>

theorem invalid_value_raises_witness:
  "fst (function_arg_setter env0 (Object 3) bc_one) = Some ValueError
   \<and> invalid_value env0 (function_space bc_one) (Object 3)
   \<and> converts_to env0 (Expression (Expr [''x''])) (Expr [''x''])
   \<and> field_data env0 (function_space bc_one) (Expr [''x'']) [\<lambda>n. 7]
   \<and> fst (function_arg_setter env0 (Expression (Expr [''x''])) bc_one) = None"
proof -
  have a: "invalid_value env0 (function_space bc_one) (Object 3)"
    by (simp add: invalid_value_def env0_def field_on_def)
  have c: "converts_to env0 (Expression (Expr [''x''])) (Expr [''x''])"
    by (simp add: converts_to_def)
  have f: "field_data env0 (function_space bc_one) (Expr [''x'']) [\<lambda>n. 7]"
    by (simp add: field_data_def env0_def)
  show ?thesis
    using invalid_value_raises [of env0 "Object 3" bc_one]
      invalid_value_raises [of env0 "Expression (Expr [''x''])" bc_one] a c f
    by blast
qed

text \<open>
  Claim C4, counterexample to the claim as stated: a \<^verbatim>\<open>Function\<close> on another space is
  not in the class of the \<^verbatim>\<open>ValueError\<close>, and it is not accepted without error.
\<close>

theorem other_value_not_accepted:
  "\<not> invalid_value env0 (function_space bc_one) (Function \<lparr>space = V2, dat = [\<lambda>n. 0]\<rparr>)
   \<and> fst (function_arg_setter env0 (Function \<lparr>space = V2, dat = [\<lambda>n. 0]\<rparr>) bc_one)
       = Some RuntimeError"
  by (simp add: invalid_value_def function_arg_setter_def new_function_arg_Function
        bc_one_def V1_neq_V2)

text \<open>
  Claim C3. A \<^verbatim>\<open>Function\<close> of another function space as the boundary value makes the
  constructor, the \<^verbatim>\<open>function_arg\<close> setter and \<^verbatim>\<open>set_value\<close> raise
  \<^verbatim>\<open>RuntimeError\<close>, and the boundary condition is as before; \<^verbatim>\<open>apply(r)\<close> with a
  \<^verbatim>\<open>Function\<close> \<open>r\<close> whose function space is neither the boundary condition's nor its
  parent raises \<^verbatim>\<open>RuntimeError\<close>, and \<open>r\<close> is as before.
\<close>

theorem incompatible_function_space_raises:
  "(space f \<noteq> V \<longrightarrow> DirichletBC E V (Function f) sd = Inl RuntimeError)
   \<and> (space f \<noteq> function_space self \<longrightarrow>
        function_arg_setter E (Function f) self = (Some RuntimeError, self)
        \<and> set_value E (Function f) self = (Some RuntimeError, self))
   \<and> (space rf \<noteq> function_space self \<and> parent (function_space self) \<noteq> Some (space rf) \<longrightarrow>
        apply_bc E self (Fn rf) u = (Some RuntimeError, Fn rf))"
  by (auto simp: DirichletBC_def function_arg_setter_def set_value_def new_function_arg_Function
        apply_bc_def Let_def)

text \<open>
  Claim C3, witness: a field on the space \<open>V2\<close> and a boundary condition on \<open>V1\<close>.
\<close>

theorem incompatible_function_space_raises_witness:
  "space \<lparr>space = V2, dat = [\<lambda>n. 0::int]\<rparr> \<noteq> V1
   \<and> DirichletBC env0 V1 (Function \<lparr>space = V2, dat = [\<lambda>n. 0]\<rparr>) (Tag 1) = Inl RuntimeError
   \<and> function_arg_setter env0 (Function \<lparr>space = V2, dat = [\<lambda>n. 0]\<rparr>) bc_one = (Some RuntimeError, bc_one)
   \<and> set_value env0 (Function \<lparr>space = V2, dat = [\<lambda>n. 0]\<rparr>) bc_one = (Some RuntimeError, bc_one)
   \<and> parent (function_space bc_one) \<noteq> Some V2
   \<and> apply_bc env0 bc_one (Fn \<lparr>space = V2, dat = [\<lambda>n. 0]\<rparr>) None
       = (Some RuntimeError, Fn \<lparr>space = V2, dat = [\<lambda>n. 0]\<rparr>)"
  using incompatible_function_space_raises
     [of "\<lparr>space = V2, dat = [\<lambda>n. 0::int]\<rparr>" V1 env0 "Tag 1" bc_one
         "\<lparr>space = V2, dat = [\<lambda>n. 0::int]\<rparr>" None]
  by (simp add: V1_neq_V2 bc_one_def parent_V1)

subsection \<open>Homogenizing and restoring\<close>

lemma zero_bc_cases:
  "fst (snd (zero E self r)) = self
   \<or> fst (snd (zero E self r)) = self\<lparr>function_arg := Literal 0, currently_zeroed := True\<rparr>
   \<or> fst (snd (zero E self r)) = restore (self\<lparr>function_arg := Literal 0, currently_zeroed := True\<rparr>)"
  by (cases r) (auto simp: zero_def homogenize_eq Let_def split: prod.splits option.splits)

lemma setter_bc_cases:
  "snd (function_arg_setter E g self) = self
   \<or> (\<exists>v. snd (function_arg_setter E g self) = self\<lparr>function_arg := v, currently_zeroed := False\<rparr>)"
  by (auto simp: function_arg_setter_def split: sum.splits)

lemma call_original_arg:
  "\<not> is_Set_value c \<Longrightarrow> original_arg (call E c self) = original_arg self"
proof (cases c)
  case (Zero r)
  then show ?thesis using zero_bc_cases [of E self r] by (auto simp: restore_def)
next
  case (Set_function_arg g)
  then show ?thesis using setter_bc_cases [of E g self] by auto
qed (simp_all add: homogenize_eq restore_def)

lemma calls_original_arg:
  "\<not> list_ex is_Set_value cs \<Longrightarrow> original_arg (calls E cs self) = original_arg self"
  by (induction cs arbitrary: self) (simp_all add: call_original_arg)

lemma DirichletBC_original_arg:
  "DirichletBC E V g sd = Inr b \<Longrightarrow> original_arg b = function_arg b \<and> \<not> currently_zeroed b"
  by (auto simp: DirichletBC_def split: sum.splits)

text \<open>
  Claim C2. Let \<open>b\<close> be a boundary condition as the constructor returned it and \<open>self\<close>
  its state after any calls of \<^verbatim>\<open>homogenize\<close>, \<^verbatim>\<open>restore\<close>, \<^verbatim>\<open>zero\<close> and the
  \<^verbatim>\<open>function_arg\<close> setter, but none of \<^verbatim>\<open>set_value\<close>. Then \<^verbatim>\<open>homogenize()\<close> returns
  and leaves the value 0 (and the flag set), and \<^verbatim>\<open>restore()\<close> after it leaves the value
  that \<^verbatim>\<open>function_arg\<close> held right after construction (and the flag cleared); on \<open>b\<close>
  itself the round trip gives \<open>b\<close> back. Since \<open>self\<close> may be the state after any number
  of round trips, the round trip can be repeated at will.
\<close>

theorem homogenize_restore_round_trip:
  assumes "DirichletBC E V g sd = Inr b" and "\<not> list_ex is_Set_value cs"
    and "self = calls E cs b"
  shows "fst (homogenize E self) = None
       \<and> function_arg (snd (homogenize E self)) = Literal 0
       \<and> currently_zeroed (snd (homogenize E self))
       \<and> function_arg (restore (snd (homogenize E self))) = function_arg b
       \<and> \<not> currently_zeroed (restore (snd (homogenize E self)))
       \<and> restore (snd (homogenize E b)) = b"
proof -
  have "original_arg self = function_arg b"
    using assms calls_original_arg [of cs E b] DirichletBC_original_arg [of E V g sd b] by simp
  moreover have "restore (snd (homogenize E b)) = b"
    using DirichletBC_original_arg [OF assms(1)] by (simp add: homogenize_eq restore_def)
  ultimately show ?thesis by (simp add: homogenize_eq restore_def)
qed

text \<open>
  Claim C2, witness: after a round trip, a direct assignment of 5 and a further
  \<^verbatim>\<open>homogenize\<close>, the round trip gives 0 and then the constructor's value 1.
\<close>

theorem homogenize_restore_round_trip_witness:
  "DirichletBC env0 V1 (Literal 1) (Tag 1) = Inr bc_one
   \<and> function_arg (snd (homogenize env0
        (calls env0 [Homogenize, Restore, Set_function_arg (Literal 5), Homogenize] bc_one))) = Literal 0
   \<and> function_arg (restore (snd (homogenize env0
        (calls env0 [Homogenize, Restore, Set_function_arg (Literal 5), Homogenize] bc_one)))) = Literal 1"
  using homogenize_restore_round_trip [of env0 V1 "Literal 1" "Tag 1" bc_one
      "[Homogenize, Restore, Set_function_arg (Literal 5), Homogenize]"
      "calls env0 [Homogenize, Restore, Set_function_arg (Literal 5), Homogenize] bc_one"]
  by (simp add: DirichletBC_def new_function_arg_Literal bc_one_def homogenize_eq restore_def
        function_arg_setter_def)

lemma call_zeroed_is_zero:
  assumes "zeroed_is_zero self"
  shows "zeroed_is_zero (call E c self)"
proof (cases c)
  case (Zero r)
  then show ?thesis using assms zero_bc_cases [of E self r]
    by (auto simp: restore_def zeroed_is_zero_def)
next
  case (Set_function_arg g)
  then show ?thesis using assms setter_bc_cases [of E g self]
    by (auto simp: zeroed_is_zero_def)
next
  case (Set_value g)
  then show ?thesis using assms setter_bc_cases [of E g self]
    by (auto simp: zeroed_is_zero_def set_value_def split: prod.splits option.splits)
qed (simp_all add: homogenize_eq restore_def zeroed_is_zero_def)

lemma calls_zeroed_is_zero: "zeroed_is_zero self \<Longrightarrow> zeroed_is_zero (calls E cs self)"
  by (induction cs arbitrary: self) (simp_all add: call_zeroed_is_zero)

lemma zero_returns:
  assumes "zero E self r = (None, self', r')"
  shows "self' = (if currently_zeroed self
                  then self\<lparr>function_arg := Literal 0, currently_zeroed := True\<rparr>
                  else restore (self\<lparr>function_arg := Literal 0, currently_zeroed := True\<rparr>))"
  using assms
  by (cases r) (auto simp: zero_def homogenize_eq Let_def split: prod.splits option.splits)

lemma call_function_space: "function_space (call E c self) = function_space self"
proof (cases c)
  case (Zero r)
  then show ?thesis using zero_bc_cases [of E self r] by (auto simp: restore_def)
next
  case (Set_function_arg g)
  then show ?thesis using setter_bc_cases [of E g self] by auto
next
  case (Set_value g)
  then show ?thesis using setter_bc_cases [of E g self]
    by (auto simp: set_value_def split: prod.splits option.splits)
qed (simp_all add: homogenize_eq restore_def)

lemma set_value_original_arg:
  "original_arg (snd (set_value E g self))
     = (case new_function_arg E (function_space self) g of
          Inr v \<Rightarrow> v
        | Inl err \<Rightarrow> original_arg self)"
  by (simp add: set_value_def function_arg_setter_def split: sum.splits)

lemma call_original_value:
  "original_arg (call E c self) = original_value E (function_space self) (original_arg self) [c]"
proof (cases "is_Set_value c")
  case True
  then obtain g where "c = Set_value g" by (cases c) auto
  then show ?thesis by (simp add: set_value_original_arg)
next
  case False
  then have "original_value E (function_space self) (original_arg self) [c] = original_arg self"
    by (cases c) auto
  then show ?thesis using call_original_arg [OF False] by simp
qed

lemma original_value_Cons:
  "original_value E V v (c # cs) = original_value E V (original_value E V v [c]) cs"
  by (cases c) simp_all

lemma calls_original_value:
  "original_arg (calls E cs self) = original_value E (function_space self) (original_arg self) cs"
proof (induction cs arbitrary: self)
  case Nil
  then show ?case by simp
next
  case (Cons c cs)
  have "original_arg (calls E (c # cs) self)
          = original_value E (function_space self) (original_arg (call E c self)) cs"
    using Cons [of "call E c self"] by (simp add: call_function_space)
  then show ?case
    using original_value_Cons [of E "function_space self" "original_arg self" c cs]
    by (simp add: call_original_value)
qed

lemma DirichletBC_function_space: "DirichletBC E V g sd = Inr b \<Longrightarrow> function_space b = V"
  by (auto simp: DirichletBC_def split: sum.splits)

subsection \<open>The nodes\<close>

lemma unique_sorted_list_of_set: "unique a = sorted_list_of_set (\<Union>row\<in>set a. set row)"
  by (simp add: unique_def sorted_list_of_set_sort_remdups [symmetric])


lemma sorted_unique: "sorted (unique a) \<and> distinct (unique a)"
  by (simp add: unique_def)

lemma take_rows_in_range:
  "list_all (\<lambda>i. i < length a) indices \<Longrightarrow> take_rows a indices = Inr (map (\<lambda>i. a ! i) indices)"
  by (simp add: take_rows_def)

lemma collect_map_Inr: "collect (map (\<lambda>i. Inr (f i)) xs) = Inr (map f xs)"
  by (induction xs) simp_all

lemma collect_map_Inl: "xs \<noteq> [] \<Longrightarrow> collect (map (\<lambda>i. Inl err) xs) = Inl err"
  by (cases xs) simp_all

lemma add_offset_broadcast:
  "width = length facet_offset \<or> width = 1 \<or> length facet_offset = 1 \<Longrightarrow>
   add_offset width base_maps i facet_offset =
     Inr (map (\<lambda>row. broadcast_add row i facet_offset) base_maps)"
  by (simp add: add_offset_def)

lemma add_offset_raises:
  "\<not> (width = length facet_offset \<or> width = 1 \<or> length facet_offset = 1) \<Longrightarrow>
   add_offset width base_maps i facet_offset = Inl (Raised ''ValueError'')"
  by (simp add: add_offset_def)

lemma broadcast_add_same_length:
  "length row = length facet_offset \<Longrightarrow>
   broadcast_add row i facet_offset = map (\<lambda>(v, off). v + i * off) (zip row facet_offset)"
  by (simp add: broadcast_add_def)

lemma nodes_extruded:
  assumes "other_sub_domain (sub_domain self)" and "extruded (mesh (function_space self))"
  shows "nodes self =
     (case take_rows (values_with_halo (mesh (function_space self)))
             (old_exterior_facets (mesh (function_space self)) (sub_domain self)) of
        Inl err \<Rightarrow> Inl err
      | Inr base_maps \<Rightarrow>
          (case collect (map (\<lambda>i. add_offset (arity (mesh (function_space self))) base_maps i
                                  (offset (mesh (function_space self))))
                          [0 ..< layers (mesh (function_space self)) - 1]) of
             Inl err \<Rightarrow> Inl err
           | Inr arrays \<Rightarrow>
               (case concatenate arrays of
                  Inl err \<Rightarrow> Inl err
                | Inr a \<Rightarrow> Inr (unique a))))"
  using assms by (simp add: nodes_def Let_def other_sub_domain_def)

lemma nodes_flat:
  assumes "other_sub_domain (sub_domain self)" and "\<not> extruded (mesh (function_space self))"
  shows "nodes self =
     (case take_rows (values_with_halo (mesh (function_space self)))
             (exterior_facets (mesh (function_space self)) (sub_domain self)) of
        Inl err \<Rightarrow> Inl err
      | Inr a \<Rightarrow> Inr (unique a))"
  using assms by (simp add: nodes_def Let_def other_sub_domain_def)


lemma nodes_bc_one: "nodes bc_one = Inr [0, 1, 2]"
  by (simp add: nodes_def bc_one_def V1_def mesh1_def take_rows_def unique_def)


lemma node_set_V1_Tag1:
  "function_space self = V1 \<Longrightarrow> sub_domain self = Tag 1 \<Longrightarrow> node_set self = Inr [0, 1, 2]"
  by (simp add: node_set_def nodes_def V1_def mesh1_def take_rows_def unique_def)

lemma nodes_bc_ext: "nodes bc_ext = Inr [0, 1, 2, 3, 4, 5]"
  by (simp add: nodes_def bc_ext_def mesh2_def take_rows_def unique_def add_offset_def
        broadcast_add_def concatenate_def upt_rec numeral_2_eq_2)

text \<open>
  Claim C6. With \<^verbatim>\<open>sub_domain\<close> \<^verbatim>\<open>"bottom"\<close> the nodes are the function space's bottom
  nodes, with \<^verbatim>\<open>"top"\<close> its top nodes. With any other \<^verbatim>\<open>sub_domain\<close>, on a mesh that
  is not extruded, they are the sorted, duplicate-free list of the entries of the rows of
  the exterior facet boundary node map at the facets of that id, when every facet index
  is a row of the map, and \<^verbatim>\<open>IndexError\<close> is raised otherwise. On an extruded mesh, with
  every facet index of the base mesh a row of the map, at least one cell layer, and a
  number of columns of the map and a length of the offset that broadcast (they are equal,
  or one of them is 1), the nodes are the sorted, duplicate-free list of the entries of
  the rows at those facets shifted by \<open>i\<close> times the offset, for every \<open>i\<close> of the
  \<^verbatim>\<open>layers - 1\<close> cell layers; when the map has as many columns as the offset has entries,
  these are all \<open>v + i * off\<close>, for \<open>v\<close> an entry of such a row and \<open>off\<close> the offset of its
  column. With no cell layer, or with shapes that do not broadcast (also when no facet
  carries the id), \<^verbatim>\<open>ValueError\<close> is raised, and \<^verbatim>\<open>IndexError\<close> for a facet index that is no
  row of the map. Whenever it is computed from the map, the list is sorted and has no
  duplicates.
\<close>

theorem nodes_of_sub_domain:
  fixes self :: "'a bc"
  defines "fs \<equiv> mesh (function_space self)" and "sd \<equiv> sub_domain self"
  shows "(sd = Marker ''bottom'' \<longrightarrow> nodes self = Inr (bottom_nodes fs))
       \<and> (sd = Marker ''top'' \<longrightarrow> nodes self = Inr (top_nodes fs))
       \<and> (other_sub_domain sd \<and> \<not> extruded fs
            \<and> list_all (\<lambda>f. f < length (values_with_halo fs)) (exterior_facets fs sd) \<longrightarrow>
          nodes self = Inr (sorted_list_of_set
            (\<Union>f\<in>set (exterior_facets fs sd). set (values_with_halo fs ! f))))
       \<and> (other_sub_domain sd \<and> \<not> extruded fs
            \<and> \<not> list_all (\<lambda>f. f < length (values_with_halo fs)) (exterior_facets fs sd) \<longrightarrow>
          nodes self = Inl (Raised ''IndexError''))
       \<and> (other_sub_domain sd \<and> extruded fs \<and> 1 < layers fs
            \<and> list_all (\<lambda>f. f < length (values_with_halo fs)) (old_exterior_facets fs sd)
            \<and> broadcasts (arity fs) (length (offset fs)) \<longrightarrow>
          nodes self = Inr (sorted_list_of_set
            (\<Union>i\<in>{..< layers fs - 1}. \<Union>f\<in>set (old_exterior_facets fs sd).
               set (broadcast_add (values_with_halo fs ! f) i (offset fs)))))
       \<and> (other_sub_domain sd \<and> extruded fs \<and> 1 < layers fs
            \<and> list_all (\<lambda>f. f < length (values_with_halo fs)) (old_exterior_facets fs sd)
            \<and> list_all (\<lambda>row. length row = arity fs) (values_with_halo fs)
            \<and> arity fs = length (offset fs) \<longrightarrow>
          nodes self = Inr (sorted_list_of_set
            (\<Union>i\<in>{..< layers fs - 1}. \<Union>f\<in>set (old_exterior_facets fs sd).
               (\<lambda>(v, off). v + i * off) ` set (zip (values_with_halo fs ! f) (offset fs)))))
       \<and> (other_sub_domain sd \<and> extruded fs
            \<and> list_all (\<lambda>f. f < length (values_with_halo fs)) (old_exterior_facets fs sd)
            \<and> (layers fs \<le> 1 \<or> \<not> broadcasts (arity fs) (length (offset fs))) \<longrightarrow>
          nodes self = Inl (Raised ''ValueError''))
       \<and> (other_sub_domain sd \<and> extruded fs
            \<and> \<not> list_all (\<lambda>f. f < length (values_with_halo fs)) (old_exterior_facets fs sd) \<longrightarrow>
          nodes self = Inl (Raised ''IndexError''))
       \<and> (\<forall>ns. other_sub_domain sd \<and> nodes self = Inr ns \<longrightarrow> sorted ns \<and> distinct ns)"
proof -
  let ?base = "map (\<lambda>i. values_with_halo fs ! i) (old_exterior_facets fs sd)"
  let ?shift = "\<lambda>i. map (\<lambda>row. broadcast_add row i (offset fs)) ?base"
  let ?n = "layers fs - 1"
  have bottom: "sd = Marker ''bottom'' \<longrightarrow> nodes self = Inr (bottom_nodes fs)"
    by (simp add: nodes_def fs_def sd_def Let_def)
  have top: "sd = Marker ''top'' \<longrightarrow> nodes self = Inr (top_nodes fs)"
    by (simp add: nodes_def fs_def sd_def Let_def)
  have flat: "nodes self = Inr (sorted_list_of_set
            (\<Union>f\<in>set (exterior_facets fs sd). set (values_with_halo fs ! f)))"
    if "other_sub_domain sd" "\<not> extruded fs"
      "list_all (\<lambda>f. f < length (values_with_halo fs)) (exterior_facets fs sd)"
    using that nodes_flat [of self]
    by (simp add: fs_def sd_def take_rows_in_range unique_sorted_list_of_set)
  have flat_err: "nodes self = Inl (Raised ''IndexError'')"
    if "other_sub_domain sd" "\<not> extruded fs"
      "\<not> list_all (\<lambda>f. f < length (values_with_halo fs)) (exterior_facets fs sd)"
    using that nodes_flat [of self] by (simp add: fs_def sd_def take_rows_def)
  have ext_err: "nodes self = Inl (Raised ''IndexError'')"
    if "other_sub_domain sd" "extruded fs"
      "\<not> list_all (\<lambda>f. f < length (values_with_halo fs)) (old_exterior_facets fs sd)"
    using that nodes_extruded [of self] by (simp add: fs_def sd_def take_rows_def)
  have ext_collect: "nodes self =
        (case collect (map (\<lambda>i. add_offset (arity fs) ?base i (offset fs)) [0 ..< ?n]) of
             Inl err \<Rightarrow> Inl err
           | Inr arrays \<Rightarrow>
               (case concatenate arrays of
                  Inl err \<Rightarrow> Inl err
                | Inr a \<Rightarrow> Inr (unique a)))"
    if "other_sub_domain sd" "extruded fs"
      "list_all (\<lambda>f. f < length (values_with_halo fs)) (old_exterior_facets fs sd)"
    using that nodes_extruded [of self] by (simp add: fs_def sd_def take_rows_in_range)
  have ext: "nodes self = Inr (sorted_list_of_set
            (\<Union>i\<in>{..< ?n}. \<Union>f\<in>set (old_exterior_facets fs sd).
               set (broadcast_add (values_with_halo fs ! f) i (offset fs))))"
    if o: "other_sub_domain sd" and e: "extruded fs" and l: "1 < layers fs"
      and r: "list_all (\<lambda>f. f < length (values_with_halo fs)) (old_exterior_facets fs sd)"
      and b: "broadcasts (arity fs) (length (offset fs))"
  proof -
    have "add_offset (arity fs) ?base i (offset fs) = Inr (?shift i)" for i
      using b by (simp add: add_offset_broadcast broadcasts_def)
    then have "collect (map (\<lambda>i. add_offset (arity fs) ?base i (offset fs)) [0 ..< ?n])
            = Inr (map ?shift [0 ..< ?n])"
      using collect_map_Inr [of ?shift "[0 ..< ?n]"] by simp
    moreover have "map ?shift [0 ..< ?n] \<noteq> []" using l by simp
    ultimately have "nodes self = Inr (unique (concat (map ?shift [0 ..< ?n])))"
      using ext_collect [OF o e r] by (simp add: concatenate_def)
    moreover have "(\<Union>row\<in>set (concat (map ?shift [0 ..< ?n])). set row)
          = (\<Union>i\<in>{..< ?n}. \<Union>f\<in>set (old_exterior_facets fs sd).
               set (broadcast_add (values_with_halo fs ! f) i (offset fs)))"
      by (auto simp: lessThan_atLeast0)
    ultimately show ?thesis by (simp add: unique_sorted_list_of_set)
  qed
  have ext_same: "nodes self = Inr (sorted_list_of_set
            (\<Union>i\<in>{..< ?n}. \<Union>f\<in>set (old_exterior_facets fs sd).
               (\<lambda>(v, off). v + i * off) ` set (zip (values_with_halo fs ! f) (offset fs))))"
    if o: "other_sub_domain sd" and e: "extruded fs" and l: "1 < layers fs"
      and r: "list_all (\<lambda>f. f < length (values_with_halo fs)) (old_exterior_facets fs sd)"
      and w: "list_all (\<lambda>row. length row = arity fs) (values_with_halo fs)"
      and a: "arity fs = length (offset fs)"
  proof -
    have "set (broadcast_add (values_with_halo fs ! f) i (offset fs))
            = (\<lambda>(v, off). v + i * off) ` set (zip (values_with_halo fs ! f) (offset fs))"
      if "f \<in> set (old_exterior_facets fs sd)" for f i
    proof -
      have "f < length (values_with_halo fs)" using r that by (simp add: list_all_iff)
      then have "length (values_with_halo fs ! f) = length (offset fs)"
        using w a by (simp add: list_all_iff)
      then show ?thesis by (simp add: broadcast_add_same_length)
    qed
    then have "(\<Union>i\<in>{..< ?n}. \<Union>f\<in>set (old_exterior_facets fs sd).
               set (broadcast_add (values_with_halo fs ! f) i (offset fs)))
          = (\<Union>i\<in>{..< ?n}. \<Union>f\<in>set (old_exterior_facets fs sd).
               (\<lambda>(v, off). v + i * off) ` set (zip (values_with_halo fs ! f) (offset fs)))"
      by simp
    then show ?thesis using ext [OF o e l r] a by (simp add: broadcasts_def)
  qed
  have ext_value_err: "nodes self = Inl (Raised ''ValueError'')"
    if o: "other_sub_domain sd" and e: "extruded fs"
      and r: "list_all (\<lambda>f. f < length (values_with_halo fs)) (old_exterior_facets fs sd)"
      and c: "layers fs \<le> 1 \<or> \<not> broadcasts (arity fs) (length (offset fs))"
  proof (cases "layers fs \<le> 1")
    case True
    then have "[0 ..< ?n] = []" by simp
    then show ?thesis using ext_collect [OF o e r] by (simp add: concatenate_def)
  next
    case False
    then have nb: "\<not> broadcasts (arity fs) (length (offset fs))" and ne: "[0 ..< ?n] \<noteq> []"
      using c by auto
    have "add_offset (arity fs) ?base i (offset fs) = Inl (Raised ''ValueError'')" for i
      using nb by (simp add: add_offset_raises broadcasts_def)
    then have "collect (map (\<lambda>i. add_offset (arity fs) ?base i (offset fs)) [0 ..< ?n])
                 = Inl (Raised ''ValueError'')"
      using collect_map_Inl [OF ne, of "Raised ''ValueError''"] by simp
    then show ?thesis using ext_collect [OF o e r] by simp
  qed
  have sorted: "\<forall>ns. other_sub_domain sd \<and> nodes self = Inr ns \<longrightarrow> sorted ns \<and> distinct ns"
    by (auto simp: nodes_def fs_def sd_def other_sub_domain_def Let_def sorted_unique
          split: sum.splits if_splits)
  from bottom top flat flat_err ext ext_same ext_value_err ext_err sorted
  show ?thesis by blast
qed

text \<open>
  Claim C6, witness: id 1 on the plain mesh and on the extruded mesh, the marker
  \<^verbatim>\<open>"top"\<close>, and an id without facets on a map of two columns with an offset of three
  entries.
\<close>

theorem nodes_of_sub_domain_witness:
  "other_sub_domain (sub_domain bc_one) \<and> \<not> extruded (mesh (function_space bc_one))
   \<and> nodes bc_one = Inr [0, 1, 2]
   \<and> other_sub_domain (sub_domain bc_ext) \<and> extruded (mesh (function_space bc_ext))
   \<and> broadcasts (arity (mesh (function_space bc_ext)))
        (length (offset (mesh (function_space bc_ext))))
   \<and> nodes bc_ext = Inr [0, 1, 2, 3, 4, 5]
   \<and> nodes (bc_ext\<lparr>sub_domain := Marker ''top''\<rparr>) = Inr [2, 5]
   \<and> old_exterior_facets (mesh (function_space bc_wide)) (sub_domain bc_wide) = []
   \<and> nodes bc_wide = Inl (Raised ''ValueError'')"
proof -
  have a: "other_sub_domain (sub_domain bc_one) \<and> \<not> extruded (mesh (function_space bc_one))"
    by (simp add: other_sub_domain_def bc_one_def V1_def mesh1_def)
  have b: "other_sub_domain (sub_domain bc_ext) \<and> extruded (mesh (function_space bc_ext))
     \<and> broadcasts (arity (mesh (function_space bc_ext)))
          (length (offset (mesh (function_space bc_ext))))"
    by (simp add: other_sub_domain_def bc_ext_def mesh2_def broadcasts_def)
  have c: "nodes (bc_ext\<lparr>sub_domain := Marker ''top''\<rparr>) = Inr [2, 5]"
    using nodes_of_sub_domain [of "bc_ext\<lparr>sub_domain := Marker ''top''\<rparr>",
        THEN conjunct2, THEN conjunct1]
    by (simp add: bc_ext_def mesh2_def)
  have d: "old_exterior_facets (mesh (function_space bc_wide)) (sub_domain bc_wide) = []"
    by (simp add: bc_wide_def mesh3_def mesh2_def)
  have e: "nodes bc_wide = Inl (Raised ''ValueError'')"
    using nodes_of_sub_domain [of bc_wide, THEN conjunct2, THEN conjunct2, THEN conjunct2,
        THEN conjunct2, THEN conjunct2, THEN conjunct2, THEN conjunct1]
    by (simp add: bc_wide_def mesh3_def mesh2_def other_sub_domain_def broadcasts_def)
  show ?thesis
    using a b c d e nodes_bc_one nodes_bc_ext by simp
qed

subsection \<open>Applying and zeroing\<close>










lemma zero_bc_two:
  "zero env0 bc_two (Fn f_nine)
     = (None, bc_one, Fn \<lparr>space = V1, dat = [\<lambda>n. if n \<in> set [0, 1, 2] then 0 else 9]\<rparr>)"
  by (simp add: zero_def homogenize_eq apply_bc_def f_nine_def node_set_V1_Tag1 component_def
        bc_two_def bc_one_def assign_def Let_def write_back_def restore_def index_V1
        cong: if_cong)

lemma zero_bc_three:
  "zero env0 bc_three (Fn f_nine)
     = (None, bc_three\<lparr>function_arg := Literal 3\<rparr>,
        Fn \<lparr>space = V1, dat = [\<lambda>n. if n \<in> set [0, 1, 2] then 0 else 9]\<rparr>)"
  by (simp add: zero_def homogenize_eq apply_bc_def f_nine_def node_set_V1_Tag1 component_def
        bc_three_def assign_def Let_def write_back_def restore_def index_V1
        cong: if_cong)

lemma calls_bc_three:
  "bc_three = calls env0 [Set_value (Literal 3), Set_function_arg (Literal 2)] bc_one"
  by (simp add: set_value_def function_arg_setter_def new_function_arg_Literal bc_one_def
        bc_three_def)

text \<open>
  Claim C9, as amended. Let \<open>b\<close> be a boundary condition as the constructor returned it
  and \<open>self\<close> its state after the calls \<open>cs\<close> of its methods. When \<^verbatim>\<open>zero(r)\<close> returns, the
  homogenized flag and the original value are as before the call; the original value is
  the one stored at construction or, if \<^verbatim>\<open>set_value\<close> has returned since, by the last
  \<^verbatim>\<open>set_value\<close> that returned; and \<^verbatim>\<open>function_arg\<close> is as before if the boundary condition
  was homogenized on entry, and otherwise that original value, which \<^verbatim>\<open>restore\<close>
  reinstates. So the whole object is as before whenever it was homogenized on entry or
  its value was the original one. A \<^verbatim>\<open>set_value\<close> that returns makes the value it stores
  the original value, and one that raises leaves the object as it was.
\<close>

theorem zero_leaves_bc:
  assumes "DirichletBC E V g sd = Inr b" and "self = calls E cs b"
    and "zero E self r = (None, self', r')"
  shows "currently_zeroed self' = currently_zeroed self
       \<and> original_arg self' = original_arg self
       \<and> original_arg self = original_value E V (function_arg b) cs
       \<and> function_arg self' =
           (if currently_zeroed self then function_arg self
            else original_value E V (function_arg b) cs)
       \<and> (currently_zeroed self \<or> function_arg self = original_arg self \<longrightarrow> self' = self)
       \<and> (\<forall>h s s'. set_value E h s = (None, s') \<longrightarrow> original_arg s' = function_arg s')
       \<and> (\<forall>h s s' err. set_value E h s = (Some err, s') \<longrightarrow> s' = s)"
proof -
  have "zeroed_is_zero b"
    using DirichletBC_original_arg [OF assms(1)] by (simp add: zeroed_is_zero_def)
  then have inv: "zeroed_is_zero self"
    using assms(2) calls_zeroed_is_zero by blast
  have orig: "original_arg self = original_value E V (function_arg b) cs"
    using calls_original_value [of E cs b] assms(2) DirichletBC_function_space [OF assms(1)]
      DirichletBC_original_arg [OF assms(1)]
    by simp
  have sv: "\<forall>h s s'. set_value E h s = (None, s') \<longrightarrow> original_arg s' = function_arg s'"
    by (auto simp: set_value_def function_arg_setter_def split: sum.splits)
  have sr: "\<forall>h s s' err. set_value E h s = (Some err, s') \<longrightarrow> s' = s"
    by (auto simp: set_value_def function_arg_setter_def split: sum.splits)
  have main: "currently_zeroed self' = currently_zeroed self
       \<and> original_arg self' = original_arg self
       \<and> function_arg self' = (if currently_zeroed self then function_arg self else original_arg self)
       \<and> (currently_zeroed self \<or> function_arg self = original_arg self \<longrightarrow> self' = self)"
  proof (cases "currently_zeroed self")
    case True
    then have "function_arg self = Literal 0" using inv by (simp add: zeroed_is_zero_def)
    then show ?thesis using True zero_returns [OF assms(3)] by simp
  next
    case False
    then show ?thesis using zero_returns [OF assms(3)] by (auto simp: restore_def)
  qed
  show ?thesis using main orig sv sr by simp
qed

text \<open>
  Claim C9, witness: after \<^verbatim>\<open>set_value(3)\<close> and a direct assignment of 2 on a boundary
  condition constructed with 1, \<^verbatim>\<open>zero\<close> leaves the value 3 of \<^verbatim>\<open>set_value\<close>.
\<close>

theorem zero_leaves_bc_witness:
  "DirichletBC env0 V1 (Literal 1) (Tag 1) = Inr bc_one
   \<and> bc_three = calls env0 [Set_value (Literal 3), Set_function_arg (Literal 2)] bc_one
   \<and> zero env0 bc_three (Fn f_nine)
       = (None, bc_three\<lparr>function_arg := Literal 3\<rparr>,
          Fn \<lparr>space = V1, dat = [\<lambda>n. if n \<in> set [0, 1, 2] then 0 else 9]\<rparr>)
   \<and> original_value env0 V1 (function_arg bc_one)
        [Set_value (Literal 3), Set_function_arg (Literal 2)] = Literal 3
   \<and> function_arg (bc_three\<lparr>function_arg := Literal 3\<rparr>) = Literal 3"
proof -
  have c: "DirichletBC env0 V1 (Literal 1) (Tag 1) = Inr bc_one"
    by (simp add: DirichletBC_def new_function_arg_Literal bc_one_def)
  have v: "original_value env0 V1 (function_arg bc_one)
             [Set_value (Literal 3), Set_function_arg (Literal 2)] = Literal 3"
    by (simp add: new_function_arg_Literal)
  show ?thesis
    using zero_leaves_bc [OF c calls_bc_three zero_bc_three] c calls_bc_three zero_bc_three v
    by simp
qed

text \<open>
  Claim C9, counterexample to the claim as stated: constructed with 1, then assigned 2
  through the \<^verbatim>\<open>function_arg\<close> setter, the boundary condition holds 1 after
  \<^verbatim>\<open>zero(r)\<close> returned, on a function \<open>r\<close> of its space.
\<close>

theorem zero_changes_function_arg:
  "DirichletBC env0 V1 (Literal 1) (Tag 1) = Inr bc_one
   \<and> function_arg_setter env0 (Literal 2) bc_one = (None, bc_two)
   \<and> space f_nine = function_space bc_two
   \<and> fst (zero env0 bc_two (Fn f_nine)) = None
   \<and> function_arg (fst (snd (zero env0 bc_two (Fn f_nine)))) = Literal 1
   \<and> function_arg bc_two = Literal 2"
  by (simp add: zero_bc_two DirichletBC_def new_function_arg_Literal function_arg_setter_def)
     (simp add: bc_one_def bc_two_def f_nine_def)

section \<open>Properties of the parameter form\<close>

lemma load_keys_parameters: "fst (snd (load_keys parameters ks)) = parameters"
  by (induction ks) (auto split: pyobj.splits prod.splits)

lemma kept_refl:
  fixes v :: "'n pyobj" and d :: "(pystr \<times> 'n pyobj) list"
  shows "v' = v \<Longrightarrow> kept_value v v'" and "d' = d \<Longrightarrow> keys_kept d d'"
  by (induction v v' and d d' rule: kept_value_keys_kept.induct) auto

lemma kept_trans:
  fixes v :: "'n pyobj" and d :: "(pystr \<times> 'n pyobj) list"
  shows "kept_value v v' \<Longrightarrow> kept_value v' v'' \<Longrightarrow> kept_value v v''"
    and "keys_kept d d' \<Longrightarrow> keys_kept d' d'' \<Longrightarrow> keys_kept d d''"
proof (induction v v' and d d' arbitrary: v'' and d'' rule: kept_value_keys_kept.induct)
  case (1 d v')
  then show ?case by (auto split: pyobj.splits)
next
  case (9 k v d d')
  then show ?case by (auto split: list.splits)
qed auto

lemma keys_kept_setitem:
  "getitem d k = Some old \<Longrightarrow> kept_value old v' \<Longrightarrow> keys_kept d (setitem d k v')"
  by (induction d) (auto simp: kept_refl)

lemma keys_kept_step:
  assumes "getitem d k = Some old" and "kept_value old v'" and "keys_kept (setitem d k v') e"
  shows "keys_kept d e"
  using kept_trans(2) [OF keys_kept_setitem [OF assms(1,2)] assms(3)] .

lemma load_keeps_keys:
  "keys_kept parameters (fst (snd (load_from_dict parameters dictionary)))"
  "keys_kept parameters (fst (snd (load_items parameters d)))"
proof (induction parameters dictionary and parameters d rule: load_from_dict_load_items.induct)
  case (10 parameters k v d)
  show ?case
  proof (cases "getitem parameters k")
    case None
    then show ?thesis using 10 by (auto split: prod.splits)
  next
    case (Some old)
    show ?thesis
    proof (cases "is_Parameters old")
      case True
      then obtain sub where old: "old = Parameters sub" by (cases old) auto
      obtain r sub' out where l: "load_from_dict sub v = (r, sub', out)"
        by (cases "load_from_dict sub v") auto
      have "keys_kept sub sub'" using 10 Some old l by fastforce
      then have k1: "keys_kept parameters (setitem parameters k (Parameters sub'))"
        using keys_kept_setitem [OF Some] old by simp
      show ?thesis
      proof (cases r)
        case None
        have "keys_kept (setitem parameters k (Parameters sub'))
                (fst (snd (load_items (setitem parameters k (Parameters sub')) d)))"
          using 10 Some old l None by fastforce
        then have "keys_kept parameters
                (fst (snd (load_items (setitem parameters k (Parameters sub')) d)))"
          using k1 kept_trans(2) by blast
        then show ?thesis using Some old l None by (auto split: prod.splits)
      next
        case (Some err)
        then show ?thesis using \<open>getitem parameters k = Some old\<close> old l k1 by simp
      qed
    next
      case False
      then have kv: "kept_value old v'" for v' by (cases old) auto
      show ?thesis
        using Some False 10 keys_kept_step [OF Some kv]
        by (cases old) auto
    qed
  qed
qed (simp_all add: load_keys_parameters kept_refl)

lemma keys_kept_names: "keys_kept d d' \<Longrightarrow> map fst d' = map fst d"
  by (induction d arbitrary: d') (auto split: list.splits)

lemma str_eq_sym: "str_eq a b = str_eq b a"
  by (cases a; cases b) auto

lemma str_eq_trans: "str_eq a b \<Longrightarrow> str_eq b c \<Longrightarrow> str_eq a c"
  by (cases a; cases b; cases c) (auto dest: map_inj_on [where f = "of_char :: char \<Rightarrow> nat"] simp: inj_on_def)

lemma getitem_setitem_other:
  "\<not> str_eq k' k \<Longrightarrow> getitem (setitem d k' v) k = getitem d k"
proof (induction d)
  case Nil
  then show ?case by simp
next
  case (Cons e d)
  then show ?case
    using str_eq_trans [of k' "fst e" k] str_eq_sym [of k' "fst e"]
    by (cases e) auto
qed

lemma load_items_other:
  "list_all (\<lambda>item. \<not> str_eq (fst item) k) d \<Longrightarrow>
   load_items parameters d = (r, parameters', out) \<Longrightarrow>
   getitem parameters' k = getitem parameters k"
proof (induction d arbitrary: parameters r parameters' out)
  case Nil
  then show ?case by simp
next
  case (Cons item d)
  obtain k' v where item: "item = (k', v)" by (cases item) auto
  have nk: "\<not> str_eq k' k" and rest: "list_all (\<lambda>item. \<not> str_eq (fst item) k) d"
    using Cons.prems item by auto
  note IH = Cons.IH [OF rest]
  show ?case
  proof (cases "getitem parameters k'")
    case None
    then show ?thesis using IH [of parameters] Cons.prems(2) item
      by (auto split: prod.splits)
  next
    case (Some old)
    then show ?thesis
      using IH Cons.prems(2) item getitem_setitem_other [OF nk]
      by (cases old) (fastforce split: prod.splits option.splits)+
  qed
qed

text \<open>
  Claim C10. Whatever the dictionary, and whether the call returns or raises, the
  parameters that \<^verbatim>\<open>load_from_dict\<close> leaves have the keys they had, at every level of
  nested \<^verbatim>\<open>Parameters\<close>. A key of the dictionary that is not in the parameters is
  passed over with a warning printed, and a parameter that equals no key of the
  dictionary keeps its value.
\<close>

theorem load_from_dict_adds_no_key:
  "keys_kept parameters (fst (snd (load_from_dict parameters dictionary)))
   \<and> map fst (fst (snd (load_from_dict parameters dictionary))) = map fst parameters
   \<and> (getitem parameters k = None \<longrightarrow>
        load_items parameters ((k, v) # d) =
          (case load_items parameters d of
             (r, parameters', out) \<Rightarrow> (r, parameters', warning k # out)))
   \<and> (list_all (\<lambda>item. \<not> str_eq (fst item) k) d \<longrightarrow>
        getitem (fst (snd (load_from_dict parameters (PDict d)))) k = getitem parameters k)"
  using load_keeps_keys(1) [of parameters dictionary]
    keys_kept_names [OF load_keeps_keys(1) [of parameters dictionary]]
    load_items_other [of k d parameters]
  by (cases "load_items parameters d") auto

lemma char_of_104: "char_of (104::nat) = CHR ''h''"
  by code_simp

lemma load_params0:
  "load_from_dict params0 dictionary0 =
     (None,
      [(Str ''a'', PNum 5), (Str ''sub'', Parameters [(Str ''b'', PText (Str ''h''))])],
      [warning (Unicode [122, 122]), warning (Unicode [110])])"
  by (simp add: params0_def dictionary0_def ascii_def str_if_unicode_def encode_ascii_ignore_def
        char_of_104)

text \<open>
  Claim C10, witness: a value and a nested value are overwritten, two keys are ignored.
\<close>

theorem load_from_dict_adds_no_key_witness:
  "load_from_dict params0 dictionary0 =
     (None,
      [(Str ''a'', PNum 5), (Str ''sub'', Parameters [(Str ''b'', PText (Str ''h''))])],
      [warning (Unicode [122, 122]), warning (Unicode [110])])
   \<and> keys_kept params0
        [(Str ''a'', PNum 5), (Str ''sub'', Parameters [(Str ''b'', PText (Str ''h''))])]
   \<and> getitem params0 (Unicode [122, 122]) = None"
  using load_from_dict_adds_no_key [of params0 dictionary0 "Unicode [122, 122]"] load_params0
  by (simp add: params0_def ascii_def)

text \<open>
  Claim C5. For an argument that is not a \<^verbatim>\<open>Parameters\<close> object, \<^verbatim>\<open>show_config_gui\<close>
  raises \<^verbatim>\<open>TypeError\<close> with no call into Tkinter made, nothing printed, and the
  argument and the files as they were; for a \<^verbatim>\<open>Parameters\<close> object it raises nothing.
\<close>

theorem show_config_gui_type_check:
  "(\<not> is_Parameters parameters \<longrightarrow>
      show_config_gui utf8 parameters clicks files = (Some TypeError, parameters, files, [], []))
   \<and> (is_Parameters parameters \<longrightarrow>
      fst (show_config_gui utf8 parameters clicks files) = None)"
  by (cases parameters) (auto simp: show_config_gui_def split: prod.splits)

text \<open>
  Claim C5, witness: the number 3, and a \<^verbatim>\<open>Parameters\<close> object.
\<close>

theorem show_config_gui_type_check_witness:
  "\<not> is_Parameters (PNum (3::int))
   \<and> show_config_gui (\<lambda>s. None) (PNum (3::int)) [Save_to_File ''p.json''] Map.empty
       = (Some TypeError, PNum 3, Map.empty, [], [])
   \<and> is_Parameters (Parameters params0)
   \<and> fst (show_config_gui (\<lambda>s. None) (Parameters params0) [Save_to_File ''p.json''] Map.empty) = None"
  using show_config_gui_type_check [of "PNum (3::int)" "\<lambda>s. None" "[Save_to_File ''p.json'']" Map.empty]
    show_config_gui_type_check [of "Parameters params0" "\<lambda>s. None" "[Save_to_File ''p.json'']" Map.empty]
  by simp

subsection \<open>Export and import\<close>


























end
